theory Spec2Isabelle
  imports Main
begin

section \<open>The vendor runtime, as the source sees it\<close>

text \<open>
  \<^verbatim>\<open>TensorDeviceGpu.h\<close> maps one set of names (\<open>gpuMalloc\<close>, \<open>gpuFree\<close>, ...) onto the HIP
  or the CUDA runtime. The runtime itself is outside the repository, so it is a parameter of
  the model: a record of answer functions, each reading the history of the calls issued so
  far. Every sequence of answers a real runtime can give is the behaviour of one such
  record, so a theorem that holds for every \<open>runtime\<close> holds for the real one.

  Addresses are natural numbers and \<open>NULL\<close> is address 0. A C \<open>int\<close> is an \<open>int\<close>: the
  source only stores and compares them.
\<close>

type_synonym ptr = nat

abbreviation NULL :: ptr where
  "NULL \<equiv> 0"

type_synonym gpuStream_t = nat

datatype gpuError_t = gpuSuccess | gpuErrorNotReady | gpuErrorCode nat

datatype gpuMemcpyKind = gpuMemcpyDeviceToDevice | gpuMemcpyDeviceToHost | gpuMemcpyHostToDevice

text \<open>
  The members of \<open>gpuDeviceProp_t\<close> the file reads. In both runtimes \<open>sharedMemPerBlock\<close> is a
  \<open>size_t\<close> and the other five are \<open>int\<close>.
\<close>

record gpuDeviceProp_t =
  multiProcessorCount :: int
  maxThreadsPerBlock :: int
  maxThreadsPerMultiProcessor :: int
  sharedMemPerBlock :: nat
  major :: int
  minor :: int

text \<open>
  The conversion of a \<open>size_t\<close> to the 32-bit \<open>int\<close> a function returns: the low 32 bits, read as
  two's complement.
\<close>

definition int_of_size_t :: "nat \<Rightarrow> int" where
  "int_of_size_t n = (int n + 2147483648) mod 4294967296 - 2147483648"

text \<open>\<open>#define gpuStreamDefault 0x00\<close> (HIP) and \<open>cudaStreamDefault\<close> (CUDA) are both 0.\<close>

definition gpuStreamDefault :: gpuStream_t where
  "gpuStreamDefault = 0"

text \<open>\<open>static const int kGpuScratchSize = 1024;\<close>\<close>

definition kGpuScratchSize :: nat where
  "kGpuScratchSize = 1024"

text \<open>
  \<open>sizeof(unsigned int)\<close> is fixed by the platform, not by this file: 4 on every platform
  the two runtimes support (the semaphore is a 4-byte counter).
\<close>

definition sizeof_unsigned_int :: nat where
  "sizeof_unsigned_int = 4"

text \<open>\<open>INT_MAX\<close> of \<open><climits>\<close>, for the 32-bit \<open>int\<close> of these platforms.\<close>

definition INT_MAX :: int where
  "INT_MAX = 2147483647"

text \<open>One constructor per runtime entry point the source calls, with the arguments passed.\<close>

datatype call =
    GetDeviceCount
  | GetDeviceProperties int
  | GetDevice
  | SetDevice int
  | Malloc nat
  | Free ptr
  | MemsetAsync ptr int nat gpuStream_t
  | MemcpyAsync ptr ptr nat gpuMemcpyKind gpuStream_t
  | StreamQuery gpuStream_t
  | StreamSynchronize gpuStream_t
  | DeviceSetSharedMemConfig nat
  | LaunchKernel nat nat nat nat gpuStream_t "nat list"
  | GetLastError

text \<open>
  The answers of the runtime. A call with an out-parameter answers with its status and
  with the content of the out-parameter after the call.
\<close>

record runtime =
  rtGetDeviceCount :: "call list \<Rightarrow> gpuError_t \<times> int"
  rtGetDeviceProperties :: "call list \<Rightarrow> int \<Rightarrow> gpuError_t \<times> gpuDeviceProp_t"
  rtGetDevice :: "call list \<Rightarrow> gpuError_t \<times> int"
  rtSetDevice :: "call list \<Rightarrow> int \<Rightarrow> gpuError_t"
  rtMalloc :: "call list \<Rightarrow> nat \<Rightarrow> gpuError_t \<times> ptr"
  rtFree :: "call list \<Rightarrow> ptr \<Rightarrow> gpuError_t"
  rtMemsetAsync :: "call list \<Rightarrow> ptr \<Rightarrow> int \<Rightarrow> nat \<Rightarrow> gpuStream_t \<Rightarrow> gpuError_t"
  rtMemcpyAsync :: "call list \<Rightarrow> ptr \<Rightarrow> ptr \<Rightarrow> nat \<Rightarrow> gpuMemcpyKind \<Rightarrow> gpuStream_t \<Rightarrow> gpuError_t"
  rtStreamQuery :: "call list \<Rightarrow> gpuStream_t \<Rightarrow> gpuError_t"
  rtStreamSynchronize :: "call list \<Rightarrow> gpuStream_t \<Rightarrow> gpuError_t"
  rtDeviceSetSharedMemConfig :: "call list \<Rightarrow> nat \<Rightarrow> gpuError_t"
  rtGetLastError :: "call list \<Rightarrow> gpuError_t"

section \<open>Build configuration and failures\<close>

text \<open>
  The preprocessor symbols the file branches on, and \<open>NDEBUG\<close>, which decides what the
  standard \<open>assert\<close> of \<open><cassert>\<close> expands to.
\<close>

record build =
  EIGEN_HIPCC :: bool
  EIGEN_HIP_DEVICE_COMPILE :: bool
  EIGEN_GPUCC :: bool
  EIGEN_GPU_COMPILE_PHASE :: bool
  NDEBUG :: bool

text \<open>
  How a call can fail to return a value: a failed assertion ends the process; the wait
  loop of the property cache never ends when nobody sets the flag; \<open>new T[n]\<close> throws for a
  negative \<open>n\<close>; reading an array out of range, or through a pointer to no object, has no
  defined result.
\<close>

datatype failure = AssertionFailed | NeverReturns | BadArrayNewLength | OutOfRange | BadPointer

text \<open>
  \<^verbatim>\<open>#if defined(EIGEN_HIP_DEVICE_COMPILE)
  #undef assert
  #define assert(COND)
  #endif\<close>
  Elsewhere \<open>assert\<close> is the standard macro: with \<open>NDEBUG\<close> defined it expands to
  \<open>((void)0)\<close>, otherwise it ends the process when its argument is false. Where the macro
  expands to nothing its argument is not evaluated. \<open>assert_compiled cfg\<close> says that the check
  is compiled in, \<open>assert_aborts cfg c\<close> that \<open>assert(c)\<close> ends the process.
\<close>

definition assert_compiled :: "build \<Rightarrow> bool" where
  "assert_compiled cfg = (\<not> NDEBUG cfg \<and> \<not> EIGEN_HIP_DEVICE_COMPILE cfg)"

definition assert_aborts :: "build \<Rightarrow> bool \<Rightarrow> bool" where
  "assert_aborts cfg c = (assert_compiled cfg \<and> \<not> c)"

text \<open>
  Modelled from the spec: the macro \<open>eigen_assert\<close> is defined outside this file. The spec
  (sections 4.5 and 7) has it as a fatal assertion: the process ends when the condition is
  false.
\<close>

definition eigen_assert_aborts :: "bool \<Rightarrow> bool" where
  "eigen_assert_aborts c = (\<not> c)"

section \<open>Program state\<close>

text \<open>The messages the source writes to \<open>std::cerr\<close>.\<close>

datatype diag =
    FailedDeviceCount gpuError_t
  | FailedDeviceInit int gpuError_t
  | StreamError gpuError_t

text \<open>
  \<open>const gpuStream_t* stream_\<close> points either at the file's own
  \<open>static const gpuStream_t default_stream = gpuStreamDefault\<close> or at a stream object of
  the caller. The members \<open>stream_\<close>, \<open>device_\<close>, \<open>scratch_\<close> and \<open>semaphore_\<close> of the class are the
  fields \<open>sd_stream\<close>, \<open>sd_device\<close>, \<open>sd_scratch\<close> and \<open>sd_semaphore\<close> of the record (a name
  cannot end in an underscore here).
\<close>

datatype stream_ptr = default_stream | caller_stream ptr

record GpuStreamDevice =
  sd_stream :: stream_ptr
  sd_device :: int
  sd_scratch :: ptr
  sd_semaphore :: ptr

text \<open>
  The world a call runs in: the runtime calls issued so far (oldest first), the caller's
  stream objects, the \<open>StreamInterface\<close> objects by address, the file's three statics
  (\<open>m_deviceProperties\<close> with \<open>None\<close> for an element not written yet,
  \<open>m_devicePropInitialized\<close>, and \<open>first\<close> of \<open>initializeDeviceProp\<close>), and \<open>std::cerr\<close>.
\<close>

record world =
  calls :: "call list"
  stream_mem :: "ptr \<Rightarrow> gpuStream_t"
  objects :: "ptr \<Rightarrow> GpuStreamDevice option"
  m_deviceProperties :: "gpuDeviceProp_t option list"
  m_devicePropInitialized :: bool
  first :: bool
  cerr :: "diag list"

definition issue :: "call \<Rightarrow> world \<Rightarrow> world" where
  "issue c w = w\<lparr>calls := calls w @ [c]\<rparr>"

definition gpuGetDeviceCount :: "runtime \<Rightarrow> world \<Rightarrow> (gpuError_t \<times> int) \<times> world" where
  "gpuGetDeviceCount rt w = (rtGetDeviceCount rt (calls w), issue GetDeviceCount w)"

definition gpuGetDeviceProperties ::
  "runtime \<Rightarrow> int \<Rightarrow> world \<Rightarrow> (gpuError_t \<times> gpuDeviceProp_t) \<times> world" where
  "gpuGetDeviceProperties rt i w =
     (rtGetDeviceProperties rt (calls w) i, issue (GetDeviceProperties i) w)"

definition gpuGetDevice :: "runtime \<Rightarrow> world \<Rightarrow> (gpuError_t \<times> int) \<times> world" where
  "gpuGetDevice rt w = (rtGetDevice rt (calls w), issue GetDevice w)"

definition gpuSetDevice :: "runtime \<Rightarrow> int \<Rightarrow> world \<Rightarrow> gpuError_t \<times> world" where
  "gpuSetDevice rt d w = (rtSetDevice rt (calls w) d, issue (SetDevice d) w)"

definition gpuMalloc :: "runtime \<Rightarrow> nat \<Rightarrow> world \<Rightarrow> (gpuError_t \<times> ptr) \<times> world" where
  "gpuMalloc rt n w = (rtMalloc rt (calls w) n, issue (Malloc n) w)"

definition gpuFree :: "runtime \<Rightarrow> ptr \<Rightarrow> world \<Rightarrow> gpuError_t \<times> world" where
  "gpuFree rt p w = (rtFree rt (calls w) p, issue (Free p) w)"

definition gpuMemsetAsync ::
  "runtime \<Rightarrow> ptr \<Rightarrow> int \<Rightarrow> nat \<Rightarrow> gpuStream_t \<Rightarrow> world \<Rightarrow> gpuError_t \<times> world" where
  "gpuMemsetAsync rt p c n s w =
     (rtMemsetAsync rt (calls w) p c n s, issue (MemsetAsync p c n s) w)"

definition gpuMemcpyAsync ::
  "runtime \<Rightarrow> ptr \<Rightarrow> ptr \<Rightarrow> nat \<Rightarrow> gpuMemcpyKind \<Rightarrow> gpuStream_t \<Rightarrow> world \<Rightarrow> gpuError_t \<times> world" where
  "gpuMemcpyAsync rt dst src n k s w =
     (rtMemcpyAsync rt (calls w) dst src n k s, issue (MemcpyAsync dst src n k s) w)"

definition gpuStreamQuery :: "runtime \<Rightarrow> gpuStream_t \<Rightarrow> world \<Rightarrow> gpuError_t \<times> world" where
  "gpuStreamQuery rt s w = (rtStreamQuery rt (calls w) s, issue (StreamQuery s) w)"

definition gpuStreamSynchronize :: "runtime \<Rightarrow> gpuStream_t \<Rightarrow> world \<Rightarrow> gpuError_t \<times> world" where
  "gpuStreamSynchronize rt s w =
     (rtStreamSynchronize rt (calls w) s, issue (StreamSynchronize s) w)"

definition gpuDeviceSetSharedMemConfig :: "runtime \<Rightarrow> nat \<Rightarrow> world \<Rightarrow> gpuError_t \<times> world" where
  "gpuDeviceSetSharedMemConfig rt c w =
     (rtDeviceSetSharedMemConfig rt (calls w) c, issue (DeviceSetSharedMemConfig c) w)"

definition gpuGetLastError :: "runtime \<Rightarrow> world \<Rightarrow> gpuError_t \<times> world" where
  "gpuGetLastError rt w = (rtGetLastError rt (calls w), issue GetLastError w)"

section \<open>The device property cache\<close>

text \<open>
  The loop of \<open>initializeDeviceProp\<close>:
  \<^verbatim>\<open>for (int i = 0; i < num_devices; ++i) {
    status = gpuGetDeviceProperties(&m_deviceProperties[i], i);
    if (status != gpuSuccess) {
      std::cerr << "Failed to initialize GPU device #" << i << ": " << ... << std::endl;
      assert(status == gpuSuccess);
    }
  }\<close>
  The runtime writes the record of device \<open>i\<close> into \<open>m_deviceProperties[i]\<close>.
\<close>

function query_props ::
  "build \<Rightarrow> runtime \<Rightarrow> nat \<Rightarrow> nat \<Rightarrow> world \<Rightarrow> (failure + unit) \<times> world" where
  "query_props cfg rt i num_devices w =
     (if i < num_devices then
        (case gpuGetDeviceProperties rt (int i) w of
           ((status, p), w1) \<Rightarrow>
             let w2 = w1\<lparr>m_deviceProperties := (m_deviceProperties w1)[i := Some p]\<rparr> in
             if status \<noteq> gpuSuccess then
               let w3 = w2\<lparr>cerr := cerr w2 @ [FailedDeviceInit (int i) status]\<rparr> in
               if assert_aborts cfg (status = gpuSuccess) then (Inl AssertionFailed, w3)
               else query_props cfg rt (Suc i) num_devices w3
             else query_props cfg rt (Suc i) num_devices w2)
      else (Inr (), w))"
  by pat_completeness auto
termination
  by (relation "measure (\<lambda>(cfg, rt, i, num_devices, w). num_devices - i)") auto

text \<open>
  \<^verbatim>\<open>while (!m_devicePropInitialized) {
    std::atomic_thread_fence(std::memory_order_acquire);
    EIGEN_SLEEP(1000);
  }\<close>
  The body (the fence only from C++11 on) writes nothing; in a run of one thread nobody else
  sets the flag, so the loop returns exactly when the flag is set already.
\<close>

partial_function (option) wait_initialized :: "world \<Rightarrow> world option" where
  "wait_initialized w = (if m_devicePropInitialized w then Some w else wait_initialized w)"

text \<open>
  \<open>initializeDeviceProp\<close>, run by one thread:
  \<^verbatim>\<open>if (!m_devicePropInitialized) {
    static std::atomic<bool> first(true);
    if (first.exchange(false)) {
      int num_devices;
      gpuError_t status = gpuGetDeviceCount(&num_devices);
      if (status != gpuSuccess) {
        std::cerr << "Failed to get the number of GPU devices: " << ... << std::endl;
        assert(status == gpuSuccess);
      }
      m_deviceProperties = new gpuDeviceProp_t[num_devices];
      for (int i = 0; i < num_devices; ++i) { ... }
      std::atomic_thread_fence(std::memory_order_release);
      m_devicePropInitialized = true;
    } else {
      while (!m_devicePropInitialized) { ... }
    }
  }\<close>
  \<open>first.exchange(false)\<close> (and, before C++11, \<open>if (first) { first = false;\<close>) reads \<open>first\<close>
  and leaves it false. The fences order memory between threads and change nothing here.
\<close>

definition initializeDeviceProp :: "build \<Rightarrow> runtime \<Rightarrow> world \<Rightarrow> (failure + unit) \<times> world" where
  "initializeDeviceProp cfg rt w =
     (if \<not> m_devicePropInitialized w then
        (if first w then
           (case gpuGetDeviceCount rt (w\<lparr>first := False\<rparr>) of
              ((status, num_devices), w1) \<Rightarrow>
                let w2 = (if status \<noteq> gpuSuccess
                          then w1\<lparr>cerr := cerr w1 @ [FailedDeviceCount status]\<rparr> else w1) in
                if status \<noteq> gpuSuccess \<and> assert_aborts cfg (status = gpuSuccess)
                then (Inl AssertionFailed, w2)
                else if num_devices < 0 then (Inl BadArrayNewLength, w2)
                else
                  (case query_props cfg rt 0 (nat num_devices)
                          (w2\<lparr>m_deviceProperties := replicate (nat num_devices) None\<rparr>) of
                     (Inl e, w3) \<Rightarrow> (Inl e, w3)
                   | (Inr u, w3) \<Rightarrow> (Inr (), w3\<lparr>m_devicePropInitialized := True\<rparr>)))
         else
           (case wait_initialized (w\<lparr>first := False\<rparr>) of
              None \<Rightarrow> (Inl NeverReturns, w\<lparr>first := False\<rparr>)
            | Some w1 \<Rightarrow> (Inr (), w1)))
      else (Inr (), w))"

section \<open>GpuStreamDevice\<close>

text \<open>\<open>*stream_\<close>\<close>

definition deref_stream :: "world \<Rightarrow> stream_ptr \<Rightarrow> gpuStream_t" where
  "deref_stream w sp = (case sp of default_stream \<Rightarrow> gpuStreamDefault | caller_stream a \<Rightarrow> stream_mem w a)"

text \<open>The end of all three constructors: \<open>initializeDeviceProp();\<close> and then the object exists.\<close>

definition construct ::
  "build \<Rightarrow> runtime \<Rightarrow> GpuStreamDevice \<Rightarrow> world \<Rightarrow> (failure + GpuStreamDevice) \<times> world" where
  "construct cfg rt d w =
     (case initializeDeviceProp cfg rt w of
        (Inl e, w1) \<Rightarrow> (Inl e, w1)
      | (Inr u, w1) \<Rightarrow> (Inr d, w1))"

text \<open>
  \<^verbatim>\<open>GpuStreamDevice() : stream_(&default_stream), scratch_(NULL), semaphore_(NULL) {
    gpuGetDevice(&device_);
    initializeDeviceProp();
  }\<close>
  The status of \<open>gpuGetDevice\<close> is dropped.
\<close>

definition GpuStreamDevice_current ::
  "build \<Rightarrow> runtime \<Rightarrow> world \<Rightarrow> (failure + GpuStreamDevice) \<times> world" where
  "GpuStreamDevice_current cfg rt w =
     (case gpuGetDevice rt w of
        ((err, dev), w1) \<Rightarrow>
          construct cfg rt
            \<lparr>sd_stream = default_stream, sd_device = dev, sd_scratch = NULL, sd_semaphore = NULL\<rparr> w1)"

text \<open>
  \<^verbatim>\<open>GpuStreamDevice(int device)
      : stream_(&default_stream), device_(device), scratch_(NULL), semaphore_(NULL) {
    initializeDeviceProp();
  }\<close>
\<close>

definition GpuStreamDevice_device ::
  "build \<Rightarrow> runtime \<Rightarrow> int \<Rightarrow> world \<Rightarrow> (failure + GpuStreamDevice) \<times> world" where
  "GpuStreamDevice_device cfg rt device w =
     construct cfg rt
       \<lparr>sd_stream = default_stream, sd_device = device, sd_scratch = NULL, sd_semaphore = NULL\<rparr> w"

text \<open>
  \<^verbatim>\<open>GpuStreamDevice(const gpuStream_t* stream, int device = -1)
      : stream_(stream), device_(device), scratch_(NULL), semaphore_(NULL) {
    if (device < 0) {
      gpuGetDevice(&device_);
    } else {
      int num_devices;
      gpuError_t err = gpuGetDeviceCount(&num_devices);
      assert(err == gpuSuccess);
      assert(device < num_devices);
      device_ = device;
    }
    initializeDeviceProp();
  }\<close>
\<close>

definition GpuStreamDevice_stream ::
  "build \<Rightarrow> runtime \<Rightarrow> ptr \<Rightarrow> int \<Rightarrow> world \<Rightarrow> (failure + GpuStreamDevice) \<times> world" where
  "GpuStreamDevice_stream cfg rt strm device w =
     (if device < 0 then
        (case gpuGetDevice rt w of
           ((err, dev), w1) \<Rightarrow>
             construct cfg rt
               \<lparr>sd_stream = caller_stream strm, sd_device = dev, sd_scratch = NULL,
                sd_semaphore = NULL\<rparr> w1)
      else
        (case gpuGetDeviceCount rt w of
           ((err, num_devices), w1) \<Rightarrow>
             if assert_aborts cfg (err = gpuSuccess) then (Inl AssertionFailed, w1)
             else if assert_aborts cfg (device < num_devices) then (Inl AssertionFailed, w1)
             else
               construct cfg rt
                 \<lparr>sd_stream = caller_stream strm, sd_device = device, sd_scratch = NULL,
                  sd_semaphore = NULL\<rparr> w1))"

text \<open>The default argument \<open>int device = -1\<close>.\<close>

definition GpuStreamDevice_stream_default ::
  "build \<Rightarrow> runtime \<Rightarrow> ptr \<Rightarrow> world \<Rightarrow> (failure + GpuStreamDevice) \<times> world" where
  "GpuStreamDevice_stream_default cfg rt strm w = GpuStreamDevice_stream cfg rt strm (- 1) w"

text \<open>\<open>const gpuStream_t& stream() const { return *stream_; }\<close>\<close>

definition stream :: "GpuStreamDevice \<Rightarrow> world \<Rightarrow> gpuStream_t" where
  "stream d w = deref_stream w (sd_stream d)"

text \<open>
  \<open>return m_deviceProperties[device_];\<close> The source does not check the index; a read
  outside the array, or of an element the query pass has not written, is a failure here.
\<close>

definition deviceProperties :: "GpuStreamDevice \<Rightarrow> world \<Rightarrow> failure + gpuDeviceProp_t" where
  "deviceProperties d w =
     (if 0 \<le> sd_device d \<and> nat (sd_device d) < length (m_deviceProperties w) then
        (case m_deviceProperties w ! nat (sd_device d) of
           None \<Rightarrow> Inl OutOfRange
         | Some p \<Rightarrow> Inr p)
      else Inl OutOfRange)"

text \<open>
  \<^verbatim>\<open>virtual void* allocate(size_t num_bytes) const {
    gpuError_t err = gpuSetDevice(device_);
    assert(err == gpuSuccess);
    void* result;
    err = gpuMalloc(&result, num_bytes);
    assert(err == gpuSuccess);
    assert(result != NULL);
    return result;
  }\<close>
\<close>

definition allocate ::
  "build \<Rightarrow> runtime \<Rightarrow> GpuStreamDevice \<Rightarrow> nat \<Rightarrow> world \<Rightarrow> (failure + ptr) \<times> world" where
  "allocate cfg rt d num_bytes w =
     (case gpuSetDevice rt (sd_device d) w of
        (err, w1) \<Rightarrow>
          if assert_aborts cfg (err = gpuSuccess) then (Inl AssertionFailed, w1)
          else
            (case gpuMalloc rt num_bytes w1 of
               ((err2, result), w2) \<Rightarrow>
                 if assert_aborts cfg (err2 = gpuSuccess) then (Inl AssertionFailed, w2)
                 else if assert_aborts cfg (result \<noteq> NULL) then (Inl AssertionFailed, w2)
                 else (Inr result, w2)))"

text \<open>
  \<^verbatim>\<open>virtual void deallocate(void* buffer) const {
    gpuError_t err = gpuSetDevice(device_);
    assert(err == gpuSuccess);
    assert(buffer != NULL);
    err = gpuFree(buffer);
    assert(err == gpuSuccess);
  }\<close>
\<close>

definition deallocate ::
  "build \<Rightarrow> runtime \<Rightarrow> GpuStreamDevice \<Rightarrow> ptr \<Rightarrow> world \<Rightarrow> (failure + unit) \<times> world" where
  "deallocate cfg rt d buffer w =
     (case gpuSetDevice rt (sd_device d) w of
        (err, w1) \<Rightarrow>
          if assert_aborts cfg (err = gpuSuccess) then (Inl AssertionFailed, w1)
          else if assert_aborts cfg (buffer \<noteq> NULL) then (Inl AssertionFailed, w1)
          else
            (case gpuFree rt buffer w1 of
               (err2, w2) \<Rightarrow>
                 if assert_aborts cfg (err2 = gpuSuccess) then (Inl AssertionFailed, w2)
                 else (Inr (), w2)))"

text \<open>
  \<^verbatim>\<open>virtual void* scratchpad() const {
    if (scratch_ == NULL) {
      scratch_ = allocate(kGpuScratchSize + sizeof(unsigned int));
    }
    return scratch_;
  }\<close>
  \<open>scratch_\<close> is \<open>mutable\<close>: the call returns the object as it leaves it.
\<close>

definition scratchpad ::
  "build \<Rightarrow> runtime \<Rightarrow> GpuStreamDevice \<Rightarrow> world \<Rightarrow> (failure + ptr) \<times> GpuStreamDevice \<times> world" where
  "scratchpad cfg rt d w =
     (if sd_scratch d = NULL then
        (case allocate cfg rt d (kGpuScratchSize + sizeof_unsigned_int) w of
           (Inl e, w1) \<Rightarrow> (Inl e, d, w1)
         | (Inr p, w1) \<Rightarrow> (Inr p, d\<lparr>sd_scratch := p\<rparr>, w1))
      else (Inr (sd_scratch d), d, w))"

text \<open>
  \<^verbatim>\<open>virtual unsigned int* semaphore() const {
    if (semaphore_ == NULL) {
      char* scratch = static_cast<char*>(scratchpad()) + kGpuScratchSize;
      semaphore_ = reinterpret_cast<unsigned int*>(scratch);
      gpuError_t err = gpuMemsetAsync(semaphore_, 0, sizeof(unsigned int), *stream_);
      assert(err == gpuSuccess);
    }
    return semaphore_;
  }\<close>
\<close>

definition semaphore ::
  "build \<Rightarrow> runtime \<Rightarrow> GpuStreamDevice \<Rightarrow> world \<Rightarrow> (failure + ptr) \<times> GpuStreamDevice \<times> world" where
  "semaphore cfg rt d w =
     (if sd_semaphore d = NULL then
        (case scratchpad cfg rt d w of
           (Inl e, d1, w1) \<Rightarrow> (Inl e, d1, w1)
         | (Inr sp, d1, w1) \<Rightarrow>
             let scratch = sp + kGpuScratchSize;
                 d2 = d1\<lparr>sd_semaphore := scratch\<rparr>
             in (case gpuMemsetAsync rt (sd_semaphore d2) 0 sizeof_unsigned_int
                        (deref_stream w1 (sd_stream d2)) w1 of
                   (err, w2) \<Rightarrow>
                     if assert_aborts cfg (err = gpuSuccess) then (Inl AssertionFailed, d2, w2)
                     else (Inr (sd_semaphore d2), d2, w2)))
      else (Inr (sd_semaphore d), d, w))"

text \<open>
  \<^verbatim>\<open>virtual ~GpuStreamDevice() {
    if (scratch_) {
      deallocate(scratch_);
    }
  }\<close>
\<close>

definition GpuStreamDevice_destroy ::
  "build \<Rightarrow> runtime \<Rightarrow> GpuStreamDevice \<Rightarrow> world \<Rightarrow> (failure + unit) \<times> world" where
  "GpuStreamDevice_destroy cfg rt d w =
     (if sd_scratch d \<noteq> NULL then deallocate cfg rt d (sd_scratch d) w else (Inr (), w))"

section \<open>GpuDevice\<close>

text \<open>
  \<open>const StreamInterface* stream_\<close> and \<open>int max_blocks_\<close> are the fields \<open>gd_stream\<close> and
  \<open>gd_max_blocks\<close>. The interface object is not owned: it lives in \<open>objects\<close> of the world,
  at the address the device holds.
\<close>

record GpuDevice =
  gd_stream :: ptr
  gd_max_blocks :: int

text \<open>
  \<^verbatim>\<open>explicit GpuDevice(const StreamInterface* stream)
      : stream_(stream), max_blocks_(INT_MAX) {
    eigen_assert(stream);
  }\<close>
\<close>

definition GpuDevice_new :: "ptr \<Rightarrow> failure + GpuDevice" where
  "GpuDevice_new strm =
     (if eigen_assert_aborts (strm \<noteq> NULL) then Inl AssertionFailed
      else Inr \<lparr>gd_stream = strm, gd_max_blocks = INT_MAX\<rparr>)"

text \<open>
  \<^verbatim>\<open>explicit GpuDevice(const StreamInterface* stream, int num_blocks)
      : stream_(stream), max_blocks_(num_blocks) {
    eigen_assert(stream);
  }\<close>
\<close>

definition GpuDevice_new_blocks :: "ptr \<Rightarrow> int \<Rightarrow> failure + GpuDevice" where
  "GpuDevice_new_blocks strm num_blocks =
     (if eigen_assert_aborts (strm \<noteq> NULL) then Inl AssertionFailed
      else Inr \<lparr>gd_stream = strm, gd_max_blocks = num_blocks\<rparr>)"

text \<open>\<open>return stream_->stream();\<close>\<close>

definition GpuDevice_stream :: "GpuDevice \<Rightarrow> world \<Rightarrow> failure + gpuStream_t" where
  "GpuDevice_stream gd w =
     (case objects w (gd_stream gd) of
        None \<Rightarrow> Inl BadPointer
      | Some d \<Rightarrow> Inr (stream d w))"

text \<open>\<open>return stream_->allocate(num_bytes);\<close>\<close>

definition GpuDevice_allocate ::
  "build \<Rightarrow> runtime \<Rightarrow> GpuDevice \<Rightarrow> nat \<Rightarrow> world \<Rightarrow> (failure + ptr) \<times> world" where
  "GpuDevice_allocate cfg rt gd num_bytes w =
     (case objects w (gd_stream gd) of
        None \<Rightarrow> (Inl BadPointer, w)
      | Some d \<Rightarrow> allocate cfg rt d num_bytes w)"

text \<open>\<open>stream_->deallocate(buffer);\<close>\<close>

definition GpuDevice_deallocate ::
  "build \<Rightarrow> runtime \<Rightarrow> GpuDevice \<Rightarrow> ptr \<Rightarrow> world \<Rightarrow> (failure + unit) \<times> world" where
  "GpuDevice_deallocate cfg rt gd buffer w =
     (case objects w (gd_stream gd) of
        None \<Rightarrow> (Inl BadPointer, w)
      | Some d \<Rightarrow> deallocate cfg rt d buffer w)"

text \<open>\<open>return stream_->scratchpad();\<close> The interface object keeps what the call stored in it.\<close>

definition GpuDevice_scratchpad ::
  "build \<Rightarrow> runtime \<Rightarrow> GpuDevice \<Rightarrow> world \<Rightarrow> (failure + ptr) \<times> world" where
  "GpuDevice_scratchpad cfg rt gd w =
     (case objects w (gd_stream gd) of
        None \<Rightarrow> (Inl BadPointer, w)
      | Some d \<Rightarrow>
          (case scratchpad cfg rt d w of
             (r, d1, w1) \<Rightarrow> (r, w1\<lparr>objects := (objects w1)(gd_stream gd := Some d1)\<rparr>)))"

text \<open>\<open>return stream_->semaphore();\<close>\<close>

definition GpuDevice_semaphore ::
  "build \<Rightarrow> runtime \<Rightarrow> GpuDevice \<Rightarrow> world \<Rightarrow> (failure + ptr) \<times> world" where
  "GpuDevice_semaphore cfg rt gd w =
     (case objects w (gd_stream gd) of
        None \<Rightarrow> (Inl BadPointer, w)
      | Some d \<Rightarrow>
          (case semaphore cfg rt d w of
             (r, d1, w1) \<Rightarrow> (r, w1\<lparr>objects := (objects w1)(gd_stream gd := Some d1)\<rparr>)))"

text \<open>
  The three copies and the fill issue one asynchronous runtime call on \<open>stream_->stream()\<close>
  and assert its status:
  \<^verbatim>\<open>gpuError_t err = gpuMemcpyAsync(dst, src, n, <kind>, stream_->stream());
  assert(err == gpuSuccess);\<close>
\<close>

definition copy_async ::
  "build \<Rightarrow> runtime \<Rightarrow> GpuDevice \<Rightarrow> ptr \<Rightarrow> ptr \<Rightarrow> nat \<Rightarrow> gpuMemcpyKind \<Rightarrow> world \<Rightarrow>
     (failure + unit) \<times> world" where
  "copy_async cfg rt gd dst src n kind w =
     (case GpuDevice_stream gd w of
        Inl e \<Rightarrow> (Inl e, w)
      | Inr s \<Rightarrow>
          (case gpuMemcpyAsync rt dst src n kind s w of
             (err, w1) \<Rightarrow>
               if assert_aborts cfg (err = gpuSuccess) then (Inl AssertionFailed, w1)
               else (Inr (), w1)))"

text \<open>
  \<^verbatim>\<open>void memcpy(void* dst, const void* src, size_t n) const {
  #ifndef EIGEN_GPU_COMPILE_PHASE
    gpuError_t err = gpuMemcpyAsync(dst, src, n, gpuMemcpyDeviceToDevice, stream_->stream());
    assert(err == gpuSuccess);
  #else
    eigen_assert(false && "The default device should be used instead to generate kernel code");
  #endif
  }\<close>
\<close>

definition memcpy ::
  "build \<Rightarrow> runtime \<Rightarrow> GpuDevice \<Rightarrow> ptr \<Rightarrow> ptr \<Rightarrow> nat \<Rightarrow> world \<Rightarrow> (failure + unit) \<times> world" where
  "memcpy cfg rt gd dst src n w =
     (if \<not> EIGEN_GPU_COMPILE_PHASE cfg then
        copy_async cfg rt gd dst src n gpuMemcpyDeviceToDevice w
      else if eigen_assert_aborts False then (Inl AssertionFailed, w)
      else (Inr (), w))"

definition memcpyHostToDevice ::
  "build \<Rightarrow> runtime \<Rightarrow> GpuDevice \<Rightarrow> ptr \<Rightarrow> ptr \<Rightarrow> nat \<Rightarrow> world \<Rightarrow> (failure + unit) \<times> world" where
  "memcpyHostToDevice cfg rt gd dst src n w =
     copy_async cfg rt gd dst src n gpuMemcpyHostToDevice w"

definition memcpyDeviceToHost ::
  "build \<Rightarrow> runtime \<Rightarrow> GpuDevice \<Rightarrow> ptr \<Rightarrow> ptr \<Rightarrow> nat \<Rightarrow> world \<Rightarrow> (failure + unit) \<times> world" where
  "memcpyDeviceToHost cfg rt gd dst src n w =
     copy_async cfg rt gd dst src n gpuMemcpyDeviceToHost w"

text \<open>
  \<^verbatim>\<open>void memset(void* buffer, int c, size_t n) const {
  #ifndef EIGEN_GPU_COMPILE_PHASE
    gpuError_t err = gpuMemsetAsync(buffer, c, n, stream_->stream());
    assert(err == gpuSuccess);
  #else
    eigen_assert(false && "The default device should be used instead to generate kernel code");
  #endif
  }\<close>
\<close>

definition memset ::
  "build \<Rightarrow> runtime \<Rightarrow> GpuDevice \<Rightarrow> ptr \<Rightarrow> int \<Rightarrow> nat \<Rightarrow> world \<Rightarrow> (failure + unit) \<times> world" where
  "memset cfg rt gd buffer c n w =
     (if \<not> EIGEN_GPU_COMPILE_PHASE cfg then
        (case GpuDevice_stream gd w of
           Inl e \<Rightarrow> (Inl e, w)
         | Inr s \<Rightarrow>
             (case gpuMemsetAsync rt buffer c n s w of
                (err, w1) \<Rightarrow>
                  if assert_aborts cfg (err = gpuSuccess) then (Inl AssertionFailed, w1)
                  else (Inr (), w1)))
      else if eigen_assert_aborts False then (Inl AssertionFailed, w)
      else (Inr (), w))"

text \<open>\<open>size_t numThreads() const { return 32; }\<close>\<close>

definition numThreads :: "GpuDevice \<Rightarrow> nat" where
  "numThreads gd = 32"

text \<open>\<open>size_t firstLevelCacheSize() const { return 48*1024; }\<close>\<close>

definition firstLevelCacheSize :: "GpuDevice \<Rightarrow> nat" where
  "firstLevelCacheSize gd = 48 * 1024"

text \<open>\<open>size_t lastLevelCacheSize() const { return firstLevelCacheSize(); }\<close>\<close>

definition lastLevelCacheSize :: "GpuDevice \<Rightarrow> nat" where
  "lastLevelCacheSize gd = firstLevelCacheSize gd"

text \<open>
  \<^verbatim>\<open>void synchronize() const {
  #if defined(EIGEN_GPUCC) && !defined(EIGEN_GPU_COMPILE_PHASE)
    gpuError_t err = gpuStreamSynchronize(stream_->stream());
    if (err != gpuSuccess) {
      std::cerr << "Error detected in GPU stream: " << gpuGetErrorString(err) << std::endl;
      assert(err == gpuSuccess);
    }
  #else
    assert(false && "The default device should be used instead to generate kernel code");
  #endif
  }\<close>
\<close>

definition synchronize ::
  "build \<Rightarrow> runtime \<Rightarrow> GpuDevice \<Rightarrow> world \<Rightarrow> (failure + unit) \<times> world" where
  "synchronize cfg rt gd w =
     (if EIGEN_GPUCC cfg \<and> \<not> EIGEN_GPU_COMPILE_PHASE cfg then
        (case GpuDevice_stream gd w of
           Inl e \<Rightarrow> (Inl e, w)
         | Inr s \<Rightarrow>
             (case gpuStreamSynchronize rt s w of
                (err, w1) \<Rightarrow>
                  if err \<noteq> gpuSuccess then
                    let w2 = w1\<lparr>cerr := cerr w1 @ [StreamError err]\<rparr> in
                    if assert_aborts cfg (err = gpuSuccess) then (Inl AssertionFailed, w2)
                    else (Inr (), w2)
                  else (Inr (), w1)))
      else if assert_aborts cfg False then (Inl AssertionFailed, w)
      else (Inr (), w))"

text \<open>\<open>stream_->deviceProperties()\<close>, and the six queries that read one member of it.\<close>

definition GpuDevice_deviceProperties :: "GpuDevice \<Rightarrow> world \<Rightarrow> failure + gpuDeviceProp_t" where
  "GpuDevice_deviceProperties gd w =
     (case objects w (gd_stream gd) of
        None \<Rightarrow> Inl BadPointer
      | Some d \<Rightarrow> deviceProperties d w)"

definition getNumGpuMultiProcessors :: "GpuDevice \<Rightarrow> world \<Rightarrow> failure + int" where
  "getNumGpuMultiProcessors gd w = map_sum id multiProcessorCount (GpuDevice_deviceProperties gd w)"

definition maxGpuThreadsPerBlock :: "GpuDevice \<Rightarrow> world \<Rightarrow> failure + int" where
  "maxGpuThreadsPerBlock gd w = map_sum id maxThreadsPerBlock (GpuDevice_deviceProperties gd w)"

definition maxGpuThreadsPerMultiProcessor :: "GpuDevice \<Rightarrow> world \<Rightarrow> failure + int" where
  "maxGpuThreadsPerMultiProcessor gd w =
     map_sum id maxThreadsPerMultiProcessor (GpuDevice_deviceProperties gd w)"

text \<open>
  \<open>int sharedMemPerBlock() const { return stream_->deviceProperties().sharedMemPerBlock; }\<close>
  returns the \<open>size_t\<close> member as an \<open>int\<close>.
\<close>

definition GpuDevice_sharedMemPerBlock :: "GpuDevice \<Rightarrow> world \<Rightarrow> failure + int" where
  "GpuDevice_sharedMemPerBlock gd w =
     map_sum id (\<lambda>p. int_of_size_t (sharedMemPerBlock p)) (GpuDevice_deviceProperties gd w)"

definition majorDeviceVersion :: "GpuDevice \<Rightarrow> world \<Rightarrow> failure + int" where
  "majorDeviceVersion gd w = map_sum id major (GpuDevice_deviceProperties gd w)"

definition minorDeviceVersion :: "GpuDevice \<Rightarrow> world \<Rightarrow> failure + int" where
  "minorDeviceVersion gd w = map_sum id minor (GpuDevice_deviceProperties gd w)"

text \<open>\<open>int maxBlocks() const { return max_blocks_; }\<close>\<close>

definition maxBlocks :: "GpuDevice \<Rightarrow> int" where
  "maxBlocks gd = gd_max_blocks gd"

text \<open>
  \<^verbatim>\<open>inline bool ok() const {
  #ifdef EIGEN_GPUCC
    gpuError_t error = gpuStreamQuery(stream_->stream());
    return (error == gpuSuccess) || (error == gpuErrorNotReady);
  #else
    return false;
  #endif
  }\<close>
\<close>

definition ok :: "build \<Rightarrow> runtime \<Rightarrow> GpuDevice \<Rightarrow> world \<Rightarrow> (failure + bool) \<times> world" where
  "ok cfg rt gd w =
     (if EIGEN_GPUCC cfg then
        (case GpuDevice_stream gd w of
           Inl e \<Rightarrow> (Inl e, w)
         | Inr s \<Rightarrow>
             (case gpuStreamQuery rt s w of
                (error, w1) \<Rightarrow> (Inr (error = gpuSuccess \<or> error = gpuErrorNotReady), w1)))
      else (Inr False, w))"

text \<open>
  \<^verbatim>\<open>#define LAUNCH_GPU_KERNEL(kernel, gridsize, blocksize, sharedmem, device, ...)
    hipLaunchKernelGGL(HIP_KERNEL_NAME(kernel), dim3(gridsize), dim3(blocksize), (sharedmem),
                       (device).stream(), __VA_ARGS__);
    assert(hipGetLastError() == hipSuccess);\<close>
  and the same with \<open>(kernel) <<< ... >>> (__VA_ARGS__)\<close> and \<open>cudaGetLastError\<close> for CUDA.
  The call of \<open>gpuGetLastError\<close> is the argument of \<open>assert\<close>: where \<open>assert\<close> expands to nothing
  the call is not made.
\<close>

definition LAUNCH_GPU_KERNEL ::
  "build \<Rightarrow> runtime \<Rightarrow> nat \<Rightarrow> nat \<Rightarrow> nat \<Rightarrow> nat \<Rightarrow> GpuDevice \<Rightarrow> nat list \<Rightarrow> world \<Rightarrow>
     (failure + unit) \<times> world" where
  "LAUNCH_GPU_KERNEL cfg rt kern gridsize blocksize sharedmem device args w =
     (case GpuDevice_stream device w of
        Inl e \<Rightarrow> (Inl e, w)
      | Inr s \<Rightarrow>
          let w1 = issue (LaunchKernel kern gridsize blocksize sharedmem s args) w in
          if assert_compiled cfg then
            (case gpuGetLastError rt w1 of
               (err, w2) \<Rightarrow>
                 if err \<noteq> gpuSuccess then (Inl AssertionFailed, w2) else (Inr (), w2))
          else (Inr (), w1))"

text \<open>
  \<^verbatim>\<open>static inline void setGpuSharedMemConfig(gpuSharedMemConfig config) {
  #ifndef EIGEN_GPU_COMPILE_PHASE
    gpuError_t status = gpuDeviceSetSharedMemConfig(config);
    assert(status == gpuSuccess);
  #endif
  }\<close>
\<close>

definition setGpuSharedMemConfig ::
  "build \<Rightarrow> runtime \<Rightarrow> nat \<Rightarrow> world \<Rightarrow> (failure + unit) \<times> world" where
  "setGpuSharedMemConfig cfg rt config w =
     (if \<not> EIGEN_GPU_COMPILE_PHASE cfg then
        (case gpuDeviceSetSharedMemConfig rt config w of
           (status, w1) \<Rightarrow>
             if assert_aborts cfg (status = gpuSuccess) then (Inl AssertionFailed, w1)
             else (Inr (), w1))
      else (Inr (), w))"

section \<open>Sequences of calls on one object\<close>

text \<open>
  The public member functions of \<open>GpuStreamDevice\<close>, as a caller issues them one after the
  other on the same object. A call that fails ends the run; the values returned are dropped.
  Between two calls the rest of the program may run: \<open>Op_elsewhere f\<close> changes the world by
  \<open>f\<close> (other objects, other runtime calls, the caller's streams) and cannot reach the private
  members of the object.
\<close>

datatype sd_op =
    Op_stream
  | Op_deviceProperties
  | Op_allocate nat
  | Op_deallocate ptr
  | Op_scratchpad
  | Op_semaphore
  | Op_elsewhere "world \<Rightarrow> world"

definition sd_step ::
  "build \<Rightarrow> runtime \<Rightarrow> sd_op \<Rightarrow> GpuStreamDevice \<Rightarrow> world \<Rightarrow>
     (failure + unit) \<times> GpuStreamDevice \<times> world" where
  "sd_step cfg rt c d w =
     (case c of
        Op_stream \<Rightarrow> (Inr (), d, w)
      | Op_deviceProperties \<Rightarrow> (map_sum id (\<lambda>p. ()) (deviceProperties d w), d, w)
      | Op_allocate n \<Rightarrow> (case allocate cfg rt d n w of (r, w1) \<Rightarrow> (map_sum id (\<lambda>p. ()) r, d, w1))
      | Op_deallocate b \<Rightarrow> (case deallocate cfg rt d b w of (r, w1) \<Rightarrow> (r, d, w1))
      | Op_scratchpad \<Rightarrow>
          (case scratchpad cfg rt d w of (r, d1, w1) \<Rightarrow> (map_sum id (\<lambda>p. ()) r, d1, w1))
      | Op_semaphore \<Rightarrow>
          (case semaphore cfg rt d w of (r, d1, w1) \<Rightarrow> (map_sum id (\<lambda>p. ()) r, d1, w1))
      | Op_elsewhere f \<Rightarrow> (Inr (), d, f w))"

fun sd_run ::
  "build \<Rightarrow> runtime \<Rightarrow> sd_op list \<Rightarrow> GpuStreamDevice \<Rightarrow> world \<Rightarrow>
     (failure + unit) \<times> GpuStreamDevice \<times> world" where
  "sd_run cfg rt [] d w = (Inr (), d, w)"
| "sd_run cfg rt (c # cs) d w =
     (case sd_step cfg rt c d w of
        (Inl e, d1, w1) \<Rightarrow> (Inl e, d1, w1)
      | (Inr u, d1, w1) \<Rightarrow> sd_run cfg rt cs d1 w1)"

text \<open>An object as each constructor leaves it: \<open>scratch_(NULL), semaphore_(NULL)\<close>.\<close>

definition fresh :: "GpuStreamDevice \<Rightarrow> bool" where
  "fresh d = (sd_scratch d = NULL \<and> sd_semaphore d = NULL)"

text \<open>
  Where \<open>assert\<close> is compiled in, a semaphore pointer that is set lies \<open>kGpuScratchSize\<close> bytes
  into a scratch block that is set.
\<close>

definition slot_inv :: "GpuStreamDevice \<Rightarrow> bool" where
  "slot_inv d =
     (sd_semaphore d = NULL \<or>
      (sd_scratch d \<noteq> NULL \<and> sd_semaphore d = sd_scratch d + kGpuScratchSize))"

text \<open>The calls that reach \<open>scratchpad()\<close>: \<open>semaphore()\<close> calls it on its first run.\<close>

definition wants_scratch :: "sd_op \<Rightarrow> bool" where
  "wants_scratch c = (c = Op_scratchpad \<or> c = Op_semaphore)"

text \<open>The device pointers handed to \<open>gpuFree\<close> in a list of runtime calls, in order.\<close>

fun frees :: "call list \<Rightarrow> ptr list" where
  "frees [] = []"
| "frees (Free p # cs) = p # frees cs"
| "frees (c # cs) = frees cs"

text \<open>The public member functions of \<open>GpuDevice\<close> and the launch macro, in the same way.\<close>

datatype gd_op =
    G_stream
  | G_allocate nat
  | G_deallocate ptr
  | G_scratchpad
  | G_semaphore
  | G_memcpy ptr ptr nat
  | G_memcpyHostToDevice ptr ptr nat
  | G_memcpyDeviceToHost ptr ptr nat
  | G_memset ptr int nat
  | G_numThreads
  | G_firstLevelCacheSize
  | G_lastLevelCacheSize
  | G_synchronize
  | G_getNumGpuMultiProcessors
  | G_maxGpuThreadsPerBlock
  | G_maxGpuThreadsPerMultiProcessor
  | G_sharedMemPerBlock
  | G_majorDeviceVersion
  | G_minorDeviceVersion
  | G_maxBlocks
  | G_ok
  | G_launch nat nat nat nat "nat list"

definition gd_step ::
  "build \<Rightarrow> runtime \<Rightarrow> gd_op \<Rightarrow> GpuDevice \<Rightarrow> world \<Rightarrow> (failure + unit) \<times> GpuDevice \<times> world" where
  "gd_step cfg rt c gd w =
     (case c of
        G_stream \<Rightarrow> (map_sum id (\<lambda>x. ()) (GpuDevice_stream gd w), gd, w)
      | G_allocate n \<Rightarrow>
          (case GpuDevice_allocate cfg rt gd n w of (r, w1) \<Rightarrow> (map_sum id (\<lambda>x. ()) r, gd, w1))
      | G_deallocate b \<Rightarrow> (case GpuDevice_deallocate cfg rt gd b w of (r, w1) \<Rightarrow> (r, gd, w1))
      | G_scratchpad \<Rightarrow>
          (case GpuDevice_scratchpad cfg rt gd w of (r, w1) \<Rightarrow> (map_sum id (\<lambda>x. ()) r, gd, w1))
      | G_semaphore \<Rightarrow>
          (case GpuDevice_semaphore cfg rt gd w of (r, w1) \<Rightarrow> (map_sum id (\<lambda>x. ()) r, gd, w1))
      | G_memcpy dst src n \<Rightarrow> (case memcpy cfg rt gd dst src n w of (r, w1) \<Rightarrow> (r, gd, w1))
      | G_memcpyHostToDevice dst src n \<Rightarrow>
          (case memcpyHostToDevice cfg rt gd dst src n w of (r, w1) \<Rightarrow> (r, gd, w1))
      | G_memcpyDeviceToHost dst src n \<Rightarrow>
          (case memcpyDeviceToHost cfg rt gd dst src n w of (r, w1) \<Rightarrow> (r, gd, w1))
      | G_memset b v n \<Rightarrow> (case memset cfg rt gd b v n w of (r, w1) \<Rightarrow> (r, gd, w1))
      | G_numThreads \<Rightarrow> (Inr (), gd, w)
      | G_firstLevelCacheSize \<Rightarrow> (Inr (), gd, w)
      | G_lastLevelCacheSize \<Rightarrow> (Inr (), gd, w)
      | G_synchronize \<Rightarrow> (case synchronize cfg rt gd w of (r, w1) \<Rightarrow> (r, gd, w1))
      | G_getNumGpuMultiProcessors \<Rightarrow>
          (map_sum id (\<lambda>x. ()) (getNumGpuMultiProcessors gd w), gd, w)
      | G_maxGpuThreadsPerBlock \<Rightarrow> (map_sum id (\<lambda>x. ()) (maxGpuThreadsPerBlock gd w), gd, w)
      | G_maxGpuThreadsPerMultiProcessor \<Rightarrow>
          (map_sum id (\<lambda>x. ()) (maxGpuThreadsPerMultiProcessor gd w), gd, w)
      | G_sharedMemPerBlock \<Rightarrow> (map_sum id (\<lambda>x. ()) (GpuDevice_sharedMemPerBlock gd w), gd, w)
      | G_majorDeviceVersion \<Rightarrow> (map_sum id (\<lambda>x. ()) (majorDeviceVersion gd w), gd, w)
      | G_minorDeviceVersion \<Rightarrow> (map_sum id (\<lambda>x. ()) (minorDeviceVersion gd w), gd, w)
      | G_maxBlocks \<Rightarrow> (Inr (), gd, w)
      | G_ok \<Rightarrow> (case ok cfg rt gd w of (r, w1) \<Rightarrow> (map_sum id (\<lambda>x. ()) r, gd, w1))
      | G_launch k g b m args \<Rightarrow>
          (case LAUNCH_GPU_KERNEL cfg rt k g b m gd args w of (r, w1) \<Rightarrow> (r, gd, w1)))"

fun gd_run ::
  "build \<Rightarrow> runtime \<Rightarrow> gd_op list \<Rightarrow> GpuDevice \<Rightarrow> world \<Rightarrow> (failure + unit) \<times> GpuDevice \<times> world" where
  "gd_run cfg rt [] gd w = (Inr (), gd, w)"
| "gd_run cfg rt (c # cs) gd w =
     (case gd_step cfg rt c gd w of
        (Inl e, gd1, w1) \<Rightarrow> (Inl e, gd1, w1)
      | (Inr u, gd1, w1) \<Rightarrow> gd_run cfg rt cs gd1 w1)"

section \<open>Concrete builds, runtimes and worlds\<close>

text \<open>
  Builds: the host pass of a GPU compiler with assertions on (\<open>gpu_host_pass\<close>) and as a
  release build with \<open>-DNDEBUG\<close> (\<open>release_host_pass\<close>); a plain host compiler that includes
  the header (\<open>plain_host\<close>); and two builds with \<open>EIGEN_HIP_DEVICE_COMPILE\<close> defined.
  \<open>EIGEN_GPU_COMPILE_PHASE\<close> is set by another header, so it is taken both ways there:
  not defined (\<open>hip_device_pass\<close>) and defined (\<open>hip_kernel_phase\<close>).
\<close>

definition gpu_host_pass :: build where
  "gpu_host_pass =
     \<lparr>EIGEN_HIPCC = False, EIGEN_HIP_DEVICE_COMPILE = False, EIGEN_GPUCC = True,
      EIGEN_GPU_COMPILE_PHASE = False, NDEBUG = False\<rparr>"

definition release_host_pass :: build where
  "release_host_pass =
     \<lparr>EIGEN_HIPCC = False, EIGEN_HIP_DEVICE_COMPILE = False, EIGEN_GPUCC = True,
      EIGEN_GPU_COMPILE_PHASE = False, NDEBUG = True\<rparr>"

definition hip_device_pass :: build where
  "hip_device_pass =
     \<lparr>EIGEN_HIPCC = True, EIGEN_HIP_DEVICE_COMPILE = True, EIGEN_GPUCC = True,
      EIGEN_GPU_COMPILE_PHASE = False, NDEBUG = False\<rparr>"

definition hip_kernel_phase :: build where
  "hip_kernel_phase =
     \<lparr>EIGEN_HIPCC = True, EIGEN_HIP_DEVICE_COMPILE = True, EIGEN_GPUCC = True,
      EIGEN_GPU_COMPILE_PHASE = True, NDEBUG = False\<rparr>"

definition plain_host :: build where
  "plain_host =
     \<lparr>EIGEN_HIPCC = False, EIGEN_HIP_DEVICE_COMPILE = False, EIGEN_GPUCC = False,
      EIGEN_GPU_COMPILE_PHASE = False, NDEBUG = False\<rparr>"

definition some_prop :: gpuDeviceProp_t where
  "some_prop =
     \<lparr>multiProcessorCount = 80, maxThreadsPerBlock = 1024, maxThreadsPerMultiProcessor = 2048,
      sharedMemPerBlock = 49152, major = 7, minor = 0\<rparr>"

text \<open>
  A runtime with two devices where every call succeeds, and one where every call fails and
  \<open>gpuMalloc\<close> leaves \<open>NULL\<close> behind.
\<close>

definition rt_good :: runtime where
  "rt_good =
     \<lparr>rtGetDeviceCount = (\<lambda>h. (gpuSuccess, 2)),
      rtGetDeviceProperties = (\<lambda>h i. (gpuSuccess, some_prop)),
      rtGetDevice = (\<lambda>h. (gpuSuccess, 1)),
      rtSetDevice = (\<lambda>h d. gpuSuccess),
      rtMalloc = (\<lambda>h n. (gpuSuccess, 4096 * Suc (length h))),
      rtFree = (\<lambda>h p. gpuSuccess),
      rtMemsetAsync = (\<lambda>h p c n s. gpuSuccess),
      rtMemcpyAsync = (\<lambda>h dst src n k s. gpuSuccess),
      rtStreamQuery = (\<lambda>h s. gpuSuccess),
      rtStreamSynchronize = (\<lambda>h s. gpuSuccess),
      rtDeviceSetSharedMemConfig = (\<lambda>h c. gpuSuccess),
      rtGetLastError = (\<lambda>h. gpuSuccess)\<rparr>"

definition rt_bad :: runtime where
  "rt_bad =
     \<lparr>rtGetDeviceCount = (\<lambda>h. (gpuErrorCode 3, 0)),
      rtGetDeviceProperties = (\<lambda>h i. (gpuErrorCode 3, some_prop)),
      rtGetDevice = (\<lambda>h. (gpuErrorCode 3, 0)),
      rtSetDevice = (\<lambda>h d. gpuErrorCode 3),
      rtMalloc = (\<lambda>h n. (gpuErrorCode 2, NULL)),
      rtFree = (\<lambda>h p. gpuErrorCode 3),
      rtMemsetAsync = (\<lambda>h p c n s. gpuErrorCode 3),
      rtMemcpyAsync = (\<lambda>h dst src n k s. gpuErrorCode 3),
      rtStreamQuery = (\<lambda>h s. gpuErrorCode 3),
      rtStreamSynchronize = (\<lambda>h s. gpuErrorCode 3),
      rtDeviceSetSharedMemConfig = (\<lambda>h c. gpuErrorCode 3),
      rtGetLastError = (\<lambda>h. gpuErrorCode 3)\<rparr>"

text \<open>
  Three runtimes that fail in one place. \<open>rt_nomem\<close> fails a \<open>gpuMalloc\<close> that comes before two
  runtime calls have been issued, leaving \<open>NULL\<close> in the out-parameter, and serves the later
  ones. \<open>rt_switch\<close> refuses every \<open>gpuSetDevice\<close> but one that is the first runtime call.
  \<open>rt_sticky\<close> answers every \<open>gpuStreamQuery\<close> with an error and lets every other call succeed,
  as when work of another thread fails on the device between two calls of this one.
\<close>

definition rt_nomem :: runtime where
  "rt_nomem =
     rt_good\<lparr>rtMalloc :=
       (\<lambda>h n. if length h < 2 then (gpuErrorCode 2, NULL) else (gpuSuccess, 4096 * Suc (length h)))\<rparr>"

definition rt_switch :: runtime where
  "rt_switch = rt_good\<lparr>rtSetDevice := (\<lambda>h d. if h = [] then gpuSuccess else gpuErrorCode 101)\<rparr>"

definition rt_sticky :: runtime where
  "rt_sticky = rt_good\<lparr>rtStreamQuery := (\<lambda>h s. gpuErrorCode 700)\<rparr>"

text \<open>The world at program start, with a caller's stream 7 at every address.\<close>

definition w_start :: world where
  "w_start =
     \<lparr>calls = [], stream_mem = (\<lambda>a. 7), objects = (\<lambda>a. None), m_deviceProperties = [],
      m_devicePropInitialized = False, first = True, cerr = []\<rparr>"

text \<open>A device object on device 1 with the default stream, and a world that holds it at 64.\<close>

definition sd_one :: GpuStreamDevice where
  "sd_one = \<lparr>sd_stream = default_stream, sd_device = 1, sd_scratch = NULL, sd_semaphore = NULL\<rparr>"

definition w_bound :: world where
  "w_bound = w_start\<lparr>objects := (objects w_start)(64 := Some sd_one)\<rparr>"

text \<open>The world once the property cache is filled for the two devices of \<open>rt_good\<close>.\<close>

definition w_ready :: world where
  "w_ready =
     w_start\<lparr>m_deviceProperties := [Some some_prop, Some some_prop],
       m_devicePropInitialized := True, first := False\<rparr>"

definition gd_one :: GpuDevice where
  "gd_one = \<lparr>gd_stream = 64, gd_max_blocks = INT_MAX\<rparr>"

section \<open>The scratch block\<close>

lemmas stream_device_defs =
  scratchpad_def semaphore_def allocate_def deallocate_def
  gpuSetDevice_def gpuMalloc_def gpuFree_def gpuMemsetAsync_def issue_def assert_aborts_def
  assert_compiled_def
  deref_stream_def stream_def gpuStreamDefault_def kGpuScratchSize_def sizeof_unsigned_int_def
  sd_step_def

lemmas fixture_defs =
  gpu_host_pass_def rt_good_def w_start_def sd_one_def w_bound_def gd_one_def

lemma issue_simps:
  "calls (issue c w) = calls w @ [c]"
  "stream_mem (issue c w) = stream_mem w"
  "objects (issue c w) = objects w"
  "m_deviceProperties (issue c w) = m_deviceProperties w"
  "m_devicePropInitialized (issue c w) = m_devicePropInitialized w"
  "first (issue c w) = first w"
  "cerr (issue c w) = cerr w"
  by (simp_all add: issue_def)

lemma issue_calls_update: "issue c (w\<lparr>calls := cs\<rparr>) = w\<lparr>calls := cs @ [c]\<rparr>"
  by (simp add: issue_def)

lemma allocate_returns:
  assumes "allocate cfg rt d n w = (Inr p, w1)"
  shows "w1 = issue (Malloc n) (issue (SetDevice (sd_device d)) w)"
    and "assert_compiled cfg \<Longrightarrow> p \<noteq> NULL"
  using assms
  by (auto simp: allocate_def gpuSetDevice_def gpuMalloc_def assert_aborts_def
      split: if_splits prod.splits)

lemma scratchpad_again:
  "sd_scratch d \<noteq> NULL \<Longrightarrow> scratchpad cfg rt d w = (Inr (sd_scratch d), d, w)"
  by (simp add: scratchpad_def)

lemma scratchpad_returns:
  assumes "scratchpad cfg rt d w = (Inr p, d1, w1)"
  shows "sd_scratch d1 = p" 
    and "assert_compiled cfg \<Longrightarrow> p \<noteq> NULL"
    and "d1 = d\<lparr>sd_scratch := p\<rparr>"
    and "sd_scratch d = NULL \<Longrightarrow>
           w1 = issue (Malloc (kGpuScratchSize + sizeof_unsigned_int)) (issue (SetDevice (sd_device d)) w)"
    and "sd_scratch d \<noteq> NULL \<Longrightarrow> w1 = w"
  using assms
  by (auto simp: scratchpad_def split: if_splits prod.splits sum.splits dest: allocate_returns)

lemma scratchpad_keeps:
  assumes "scratchpad cfg rt d w = (r, d1, w1)" and "sd_scratch d \<noteq> NULL"
  shows "d1 = d" 
  using assms by (simp add: scratchpad_def)

lemma semaphore_keeps_scratch:
  assumes "semaphore cfg rt d w = (r, d1, w1)" and "sd_scratch d \<noteq> NULL"
  shows "sd_scratch d1 = sd_scratch d" 
  using assms
  by (auto simp: semaphore_def scratchpad_def Let_def split: if_splits prod.splits sum.splits)

lemma sd_step_keeps_scratch:
  assumes "sd_step cfg rt c d w = (r, d1, w1)" and "sd_scratch d \<noteq> NULL"
  shows "sd_scratch d1 = sd_scratch d"
  using assms
  by (cases c) (auto simp: sd_step_def split: prod.splits dest: scratchpad_keeps semaphore_keeps_scratch)

lemma sd_run_keeps_scratch:
  assumes "sd_run cfg rt cs d w = (r, d1, w1)" and "sd_scratch d \<noteq> NULL"
  shows "sd_scratch d1 = sd_scratch d"
  using assms
proof (induction cs arbitrary: d w)
  case Nil
  then show ?case by simp
next
  case (Cons c cs)
  obtain r' d' w' where st: "sd_step cfg rt c d w = (r', d', w')"
    by (cases "sd_step cfg rt c d w") auto
  have k: "sd_scratch d' = sd_scratch d"
    using sd_step_keeps_scratch [OF st Cons.prems(2)] .
  show ?case
  proof (cases r')
    case (Inl e)
    with Cons.prems st k show ?thesis by simp
  next
    case (Inr u)
    with Cons.prems st have "sd_run cfg rt cs d' w' = (r, d1, w1)" by simp
    from Cons.IH [OF this] k Cons.prems(2) show ?thesis by simp
  qed
qed

lemma allocate_eq:
  assumes "rtSetDevice rt (calls w) (sd_device d) = sw"
    and "rtMalloc rt (calls w @ [SetDevice (sd_device d)]) n = (sm, p)"
  shows "allocate cfg rt d n w =
     (if assert_compiled cfg \<and> sw \<noteq> gpuSuccess
      then (Inl AssertionFailed, w\<lparr>calls := calls w @ [SetDevice (sd_device d)]\<rparr>)
      else if assert_compiled cfg \<and> (sm \<noteq> gpuSuccess \<or> p = NULL)
      then (Inl AssertionFailed, w\<lparr>calls := calls w @ [SetDevice (sd_device d), Malloc n]\<rparr>)
      else (Inr p, w\<lparr>calls := calls w @ [SetDevice (sd_device d), Malloc n]\<rparr>))"
  using assms
  by (simp add: allocate_def gpuSetDevice_def gpuMalloc_def assert_aborts_def issue_def)

lemma scratchpad_first:
  assumes "sd_scratch d = NULL"
    and "rtSetDevice rt (calls w) (sd_device d) = sw"
    and "rtMalloc rt (calls w @ [SetDevice (sd_device d)]) 1028 = (sm, p)"
  shows "scratchpad cfg rt d w =
     (if assert_compiled cfg \<and> sw \<noteq> gpuSuccess
      then (Inl AssertionFailed, d, w\<lparr>calls := calls w @ [SetDevice (sd_device d)]\<rparr>)
      else if assert_compiled cfg \<and> (sm \<noteq> gpuSuccess \<or> p = NULL)
      then (Inl AssertionFailed, d, w\<lparr>calls := calls w @ [SetDevice (sd_device d), Malloc 1028]\<rparr>)
      else (Inr p, d\<lparr>sd_scratch := p\<rparr>,
            w\<lparr>calls := calls w @ [SetDevice (sd_device d), Malloc 1028]\<rparr>))"
  using assms(1) allocate_eq [OF assms(2,3), of cfg]
  by (simp add: scratchpad_def kGpuScratchSize_def sizeof_unsigned_int_def)

text \<open>
  C2, as the code has it. A call of \<open>scratchpad()\<close> that finds \<open>scratch_\<close> null switches to the
  bound device and asks \<open>gpuMalloc\<close> for \<open>kGpuScratchSize + sizeof(unsigned int)\<close> = 1028
  bytes, and stores what \<open>gpuMalloc\<close> left in the pointer. Where \<open>assert\<close> is compiled in, the
  call ends the process unless both runtime calls succeed and the pointer is not null.
  Where \<open>assert\<close> expands to nothing (\<open>NDEBUG\<close>, or the HIP device pass) the call returns the
  pointer whatever it is: a null pointer leaves the object as it was, so the next call
  allocates again. A call that finds \<open>scratch_\<close> set returns it and issues no runtime call.
  So once a call has returned a pointer that is not null, every later call on the object
  returns that pointer, whatever other member functions ran in between and whatever else
  happened in the world.
\<close>

theorem scratchpad_reuses_block:
  "kGpuScratchSize + sizeof_unsigned_int = 1028
   \<and> (sd_scratch d \<noteq> NULL \<longrightarrow> scratchpad cfg rt d w = (Inr (sd_scratch d), d, w))
   \<and> (sd_scratch d = NULL
        \<and> rtSetDevice rt (calls w) (sd_device d) = sw
        \<and> rtMalloc rt (calls w @ [SetDevice (sd_device d)]) 1028 = (sm, q) \<longrightarrow>
        scratchpad cfg rt d w =
          (if assert_compiled cfg \<and> sw \<noteq> gpuSuccess
           then (Inl AssertionFailed, d, w\<lparr>calls := calls w @ [SetDevice (sd_device d)]\<rparr>)
           else if assert_compiled cfg \<and> (sm \<noteq> gpuSuccess \<or> q = NULL)
           then (Inl AssertionFailed, d,
                 w\<lparr>calls := calls w @ [SetDevice (sd_device d), Malloc 1028]\<rparr>)
           else (Inr q, d\<lparr>sd_scratch := q\<rparr>,
                 w\<lparr>calls := calls w @ [SetDevice (sd_device d), Malloc 1028]\<rparr>)))
   \<and> (\<forall>p d1 w1. scratchpad cfg rt d w = (Inr p, d1, w1) \<longrightarrow>
        sd_scratch d1 = p
        \<and> (assert_compiled cfg \<longrightarrow> p \<noteq> NULL)
        \<and> (p = NULL \<longrightarrow> d1 = d)
        \<and> (p \<noteq> NULL \<longrightarrow>
             (\<forall>cs w2 r d2 w3. sd_run cfg rt cs d1 w2 = (r, d2, w3) \<longrightarrow>
                scratchpad cfg rt d2 w3 = (Inr p, d2, w3))))"
proof -
  have k: "kGpuScratchSize + sizeof_unsigned_int = 1028"
    by (simp add: kGpuScratchSize_def sizeof_unsigned_int_def)
  have a: "sd_scratch d \<noteq> NULL \<longrightarrow> scratchpad cfg rt d w = (Inr (sd_scratch d), d, w)"
    by (simp add: scratchpad_again)
  have b: "sd_scratch d = NULL
        \<and> rtSetDevice rt (calls w) (sd_device d) = sw
        \<and> rtMalloc rt (calls w @ [SetDevice (sd_device d)]) 1028 = (sm, q) \<longrightarrow>
        scratchpad cfg rt d w =
          (if assert_compiled cfg \<and> sw \<noteq> gpuSuccess
           then (Inl AssertionFailed, d, w\<lparr>calls := calls w @ [SetDevice (sd_device d)]\<rparr>)
           else if assert_compiled cfg \<and> (sm \<noteq> gpuSuccess \<or> q = NULL)
           then (Inl AssertionFailed, d,
                 w\<lparr>calls := calls w @ [SetDevice (sd_device d), Malloc 1028]\<rparr>)
           else (Inr q, d\<lparr>sd_scratch := q\<rparr>,
                 w\<lparr>calls := calls w @ [SetDevice (sd_device d), Malloc 1028]\<rparr>))"
    using scratchpad_first [of d rt w sw sm q cfg] by blast
  have c: "\<forall>p d1 w1. scratchpad cfg rt d w = (Inr p, d1, w1) \<longrightarrow>
        sd_scratch d1 = p
        \<and> (assert_compiled cfg \<longrightarrow> p \<noteq> NULL)
        \<and> (p = NULL \<longrightarrow> d1 = d)
        \<and> (p \<noteq> NULL \<longrightarrow>
             (\<forall>cs w2 r d2 w3. sd_run cfg rt cs d1 w2 = (r, d2, w3) \<longrightarrow>
                scratchpad cfg rt d2 w3 = (Inr p, d2, w3)))"
  proof (intro allI impI)
    fix p d1 w1
    assume ret: "scratchpad cfg rt d w = (Inr p, d1, w1)"
    have s1: "sd_scratch d1 = p" using scratchpad_returns(1) [OF ret] .
    have nn: "assert_compiled cfg \<longrightarrow> p \<noteq> NULL"
      using scratchpad_returns(2) [OF ret] by blast
    have same: "p = NULL \<longrightarrow> d1 = d"
    proof
      assume p0: "p = NULL"
      have "sd_scratch d = NULL"
      proof (rule ccontr)
        assume set: "sd_scratch d \<noteq> NULL"
        from scratchpad_again [OF set, of cfg rt w] ret p0 set show False by simp
      qed
      with scratchpad_returns(3) [OF ret] p0 show "d1 = d" by simp
    qed
    have later: "p \<noteq> NULL \<longrightarrow>
             (\<forall>cs w2 r d2 w3. sd_run cfg rt cs d1 w2 = (r, d2, w3) \<longrightarrow>
                scratchpad cfg rt d2 w3 = (Inr p, d2, w3))"
    proof (intro allI impI)
      fix cs w2 r d2 w3
      assume p: "p \<noteq> NULL" and run: "sd_run cfg rt cs d1 w2 = (r, d2, w3)"
      have "sd_scratch d2 = p" using sd_run_keeps_scratch [OF run] s1 p by simp
      then show "scratchpad cfg rt d2 w3 = (Inr p, d2, w3)"
        using scratchpad_again [of d2 cfg rt w3] p by simp
    qed
    from s1 nn same later show "sd_scratch d1 = p
        \<and> (assert_compiled cfg \<longrightarrow> p \<noteq> NULL)
        \<and> (p = NULL \<longrightarrow> d1 = d)
        \<and> (p \<noteq> NULL \<longrightarrow>
             (\<forall>cs w2 r d2 w3. sd_run cfg rt cs d1 w2 = (r, d2, w3) \<longrightarrow>
                scratchpad cfg rt d2 w3 = (Inr p, d2, w3)))"
      by blast
  qed
  show ?thesis
    by (rule conjI [OF k conjI [OF a conjI [OF b c]]])
qed

theorem scratchpad_reuses_block_witness:
  "scratchpad gpu_host_pass rt_good sd_one w_start =
     (Inr 8192, sd_one\<lparr>sd_scratch := 8192\<rparr>, w_start\<lparr>calls := [SetDevice 1, Malloc 1028]\<rparr>)
   \<and> scratchpad gpu_host_pass rt_good (sd_one\<lparr>sd_scratch := 8192\<rparr>)
         (w_start\<lparr>calls := [SetDevice 1, Malloc 1028, SetDevice 1, Malloc 16]\<rparr>) =
     (Inr 8192, sd_one\<lparr>sd_scratch := 8192\<rparr>,
      w_start\<lparr>calls := [SetDevice 1, Malloc 1028, SetDevice 1, Malloc 16]\<rparr>)"
proof -
  have n: "sd_scratch sd_one = NULL" and dv: "sd_device sd_one = 1"
    by (simp_all add: sd_one_def)
  have sw: "rtSetDevice rt_good (calls w_start) (sd_device sd_one) = gpuSuccess"
    by (simp add: rt_good_def)
  have sm: "rtMalloc rt_good (calls w_start @ [SetDevice (sd_device sd_one)]) 1028 = (gpuSuccess, 8192)"
    by (simp add: rt_good_def w_start_def)
  have live: "assert_compiled gpu_host_pass"
    by (simp add: assert_compiled_def gpu_host_pass_def)
  have c0: "calls w_start = []" by (simp add: w_start_def)
  have r: "sd_run gpu_host_pass rt_good [Op_allocate 16] (sd_one\<lparr>sd_scratch := 8192\<rparr>)
             (w_start\<lparr>calls := [SetDevice 1, Malloc 1028]\<rparr>) =
     (Inr (), sd_one\<lparr>sd_scratch := 8192\<rparr>,
      w_start\<lparr>calls := [SetDevice 1, Malloc 1028, SetDevice 1, Malloc 16]\<rparr>)"
    by (simp add: stream_device_defs fixture_defs)
  note t = scratchpad_reuses_block
             [of sd_one gpu_host_pass rt_good w_start gpuSuccess gpuSuccess 8192]
  have "scratchpad gpu_host_pass rt_good sd_one w_start =
          (if assert_compiled gpu_host_pass \<and> gpuSuccess \<noteq> gpuSuccess
           then (Inl AssertionFailed, sd_one,
                 w_start\<lparr>calls := calls w_start @ [SetDevice (sd_device sd_one)]\<rparr>)
           else if assert_compiled gpu_host_pass \<and> (gpuSuccess \<noteq> gpuSuccess \<or> (8192 :: nat) = NULL)
           then (Inl AssertionFailed, sd_one,
                 w_start\<lparr>calls := calls w_start @ [SetDevice (sd_device sd_one), Malloc 1028]\<rparr>)
           else (Inr 8192, sd_one\<lparr>sd_scratch := 8192\<rparr>,
                 w_start\<lparr>calls := calls w_start @ [SetDevice (sd_device sd_one), Malloc 1028]\<rparr>))"
    by (rule mp [OF t [THEN conjunct2, THEN conjunct2, THEN conjunct1]]) (intro conjI n sw sm)
  then have first_call: "scratchpad gpu_host_pass rt_good sd_one w_start =
     (Inr 8192, sd_one\<lparr>sd_scratch := 8192\<rparr>, w_start\<lparr>calls := [SetDevice 1, Malloc 1028]\<rparr>)"
    by (simp add: dv c0)
  have nn: "(8192 :: nat) \<noteq> NULL" by simp
  have later: "scratchpad gpu_host_pass rt_good (sd_one\<lparr>sd_scratch := 8192\<rparr>)
         (w_start\<lparr>calls := [SetDevice 1, Malloc 1028, SetDevice 1, Malloc 16]\<rparr>) =
     (Inr 8192, sd_one\<lparr>sd_scratch := 8192\<rparr>,
      w_start\<lparr>calls := [SetDevice 1, Malloc 1028, SetDevice 1, Malloc 16]\<rparr>)"
    by (rule t [THEN conjunct2, THEN conjunct2, THEN conjunct2, rule_format, OF first_call,
                THEN conjunct2, THEN conjunct2, THEN conjunct2, rule_format, OF nn r])
  from first_call later show ?thesis by (rule conjI)
qed

text \<open>
  A release build (\<open>NDEBUG\<close>) with a first \<open>gpuMalloc\<close> that fails and leaves \<open>NULL\<close>: the first
  \<open>scratchpad()\<close> returns the null pointer, and the second call on the same object switches
  the device and allocates again, returning another pointer. The same in the HIP device
  pass.
\<close>

theorem scratchpad_allocates_again_counterexample:
  "scratchpad release_host_pass rt_nomem sd_one w_start =
     (Inr NULL, sd_one, w_start\<lparr>calls := [SetDevice 1, Malloc 1028]\<rparr>)
   \<and> scratchpad release_host_pass rt_nomem sd_one (w_start\<lparr>calls := [SetDevice 1, Malloc 1028]\<rparr>) =
     (Inr 16384, sd_one\<lparr>sd_scratch := 16384\<rparr>,
      w_start\<lparr>calls := [SetDevice 1, Malloc 1028, SetDevice 1, Malloc 1028]\<rparr>)
   \<and> scratchpad hip_device_pass rt_nomem sd_one w_start =
     (Inr NULL, sd_one, w_start\<lparr>calls := [SetDevice 1, Malloc 1028]\<rparr>)
   \<and> scratchpad hip_device_pass rt_nomem sd_one (w_start\<lparr>calls := [SetDevice 1, Malloc 1028]\<rparr>) =
     (Inr 16384, sd_one\<lparr>sd_scratch := 16384\<rparr>,
      w_start\<lparr>calls := [SetDevice 1, Malloc 1028, SetDevice 1, Malloc 1028]\<rparr>)"
  by (simp add: scratchpad_def allocate_def gpuSetDevice_def gpuMalloc_def issue_def
      assert_aborts_def assert_compiled_def release_host_pass_def hip_device_pass_def
      rt_nomem_def rt_good_def sd_one_def w_start_def kGpuScratchSize_def sizeof_unsigned_int_def)

section \<open>The semaphore slot\<close>

lemma scratchpad_stream_mem:
  "scratchpad cfg rt d w = (r, d1, w1) \<Longrightarrow> stream_mem w1 = stream_mem w \<and> sd_stream d1 = sd_stream d
     \<and> sd_device d1 = sd_device d \<and> sd_semaphore d1 = sd_semaphore d"
  by (auto simp: scratchpad_def allocate_def gpuSetDevice_def gpuMalloc_def issue_def
      split: if_splits prod.splits sum.splits)

lemma deref_stream_cong:
  "stream_mem w1 = stream_mem w \<Longrightarrow> deref_stream w1 sp = deref_stream w sp"
  by (simp add: deref_stream_def split: stream_ptr.splits)

lemma deref_stream_issue: "deref_stream (issue c w) sp = deref_stream w sp"
  by (rule deref_stream_cong) (simp add: issue_simps)

lemma semaphore_again:
  "sd_semaphore d \<noteq> NULL \<Longrightarrow> semaphore cfg rt d w = (Inr (sd_semaphore d), d, w)"
  by (simp add: semaphore_def)

lemma semaphore_first:
  assumes "semaphore cfg rt d w = (Inr s, d1, w1)" and "sd_semaphore d = NULL"
  shows "s = sd_scratch d1 + kGpuScratchSize"
    and "sd_semaphore d1 = s"
    and "s \<noteq> NULL"
    and "calls w1 = calls w
           @ (if sd_scratch d = NULL
              then [SetDevice (sd_device d), Malloc (kGpuScratchSize + sizeof_unsigned_int)] else [])
           @ [MemsetAsync s 0 sizeof_unsigned_int (stream d w)]"
    and "assert_compiled cfg \<Longrightarrow> sd_scratch d1 \<noteq> NULL"
proof -
  from assms obtain sp d' w' where
    sc: "scratchpad cfg rt d w = (Inr sp, d', w')"
    by (auto simp: semaphore_def Let_def split: prod.splits sum.splits if_splits)
  have d': "d' = d\<lparr>sd_scratch := sp\<rparr>" using scratchpad_returns(3) [OF sc] .
  have sm: "stream_mem w' = stream_mem w" using scratchpad_stream_mem [OF sc] by simp
  from assms sc have
    s: "s = sp + kGpuScratchSize" and
    d1: "d1 = d'\<lparr>sd_semaphore := sp + kGpuScratchSize\<rparr>" and
    w1: "w1 = issue (MemsetAsync (sp + kGpuScratchSize) 0 sizeof_unsigned_int
                       (deref_stream w' (sd_stream d'))) w'"
    by (auto simp: semaphore_def Let_def gpuMemsetAsync_def split: prod.splits sum.splits if_splits)
  show "s = sd_scratch d1 + kGpuScratchSize" using s d1 d' by simp
  show "sd_semaphore d1 = s" using s d1 by simp
  show "s \<noteq> NULL" using s by (simp add: kGpuScratchSize_def)
  show "calls w1 = calls w
           @ (if sd_scratch d = NULL
              then [SetDevice (sd_device d), Malloc (kGpuScratchSize + sizeof_unsigned_int)] else [])
           @ [MemsetAsync s 0 sizeof_unsigned_int (stream d w)]"
    using scratchpad_returns(4,5) [OF sc] w1 s d' deref_stream_cong [OF sm, of "sd_stream d"]
    by (cases "sd_scratch d = NULL") (simp_all add: issue_simps stream_def)
  show "assert_compiled cfg \<Longrightarrow> sd_scratch d1 \<noteq> NULL"
    using scratchpad_returns(2) [OF sc] d1 d' by simp
qed

lemma scratchpad_keeps_semaphore:
  "scratchpad cfg rt d w = (r, d1, w1) \<Longrightarrow> sd_semaphore d1 = sd_semaphore d"
  using scratchpad_stream_mem by blast

lemma semaphore_keeps:
  assumes "semaphore cfg rt d w = (r, d1, w1)" and "sd_semaphore d \<noteq> NULL"
  shows "d1 = d"
  using assms by (simp add: semaphore_def)

lemma sd_step_keeps_semaphore:
  assumes "sd_step cfg rt c d w = (r, d1, w1)" and "sd_semaphore d \<noteq> NULL"
  shows "sd_semaphore d1 = sd_semaphore d"
  using assms
  by (cases c) (auto simp: sd_step_def split: prod.splits dest: scratchpad_keeps_semaphore semaphore_keeps)

lemma sd_run_keeps_semaphore:
  assumes "sd_run cfg rt cs d w = (r, d1, w1)" and "sd_semaphore d \<noteq> NULL"
  shows "sd_semaphore d1 = sd_semaphore d"
  using assms
proof (induction cs arbitrary: d w)
  case Nil
  then show ?case by simp
next
  case (Cons c cs)
  obtain r' d' w' where st: "sd_step cfg rt c d w = (r', d', w')"
    by (cases "sd_step cfg rt c d w") auto
  have k: "sd_semaphore d' = sd_semaphore d"
    using sd_step_keeps_semaphore [OF st Cons.prems(2)] .
  show ?case
  proof (cases r')
    case (Inl e)
    with Cons.prems st k show ?thesis by simp
  next
    case (Inr u)
    with Cons.prems st have "sd_run cfg rt cs d' w' = (r, d1, w1)" by simp
    from Cons.IH [OF this] k Cons.prems(2) show ?thesis by simp
  qed
qed


lemma sd_step_semaphore_null:
  assumes "sd_step cfg rt c d w = (Inr u, d1, w1)" and "sd_semaphore d = NULL"
  shows "sd_semaphore d1 = NULL \<longleftrightarrow> c \<noteq> Op_semaphore"
proof (cases c)
  case Op_semaphore
  with assms obtain s where "semaphore cfg rt d w = (Inr s, d1, w1)"
    by (cases "semaphore cfg rt d w"; cases "fst (semaphore cfg rt d w)") (auto simp: sd_step_def)
  from semaphore_first(2,3) [OF this assms(2)] Op_semaphore show ?thesis by simp
next
  case Op_scratchpad
  with assms show ?thesis
    by (auto simp: sd_step_def split: prod.splits dest: scratchpad_keeps_semaphore)
qed (use assms in \<open>auto simp: sd_step_def split: prod.splits\<close>)

lemma sd_run_semaphore_null:
  assumes "sd_run cfg rt cs d w = (Inr u, d1, w1)" and "sd_semaphore d = NULL"
  shows "sd_semaphore d1 = NULL \<longleftrightarrow> Op_semaphore \<notin> set cs"
  using assms
proof (induction cs arbitrary: d w)
  case Nil
  then show ?case by simp
next
  case (Cons c cs)
  obtain r' d' w' where st: "sd_step cfg rt c d w = (r', d', w')"
    by (cases "sd_step cfg rt c d w") auto
  with Cons.prems(1) obtain u' where r': "r' = Inr u'"
    by (cases r') auto
  with Cons.prems(1) st have run: "sd_run cfg rt cs d' w' = (Inr u, d1, w1)" by simp
  have k: "sd_semaphore d' = NULL \<longleftrightarrow> c \<noteq> Op_semaphore"
    using sd_step_semaphore_null [OF st [unfolded r'] Cons.prems(2)] .
  show ?case
  proof (cases "c = Op_semaphore")
    case True
    with k have "sd_semaphore d' \<noteq> NULL" by simp
    from sd_run_keeps_semaphore [OF run this] this True show ?thesis by simp
  next
    case False
    with k have "sd_semaphore d' = NULL" by simp
    from Cons.IH [OF run this] False show ?thesis by simp
  qed
qed

lemma sd_step_scratch_null:
  assumes "sd_step cfg rt c d w = (r, d1, w1)" and "sd_scratch d = NULL" and "\<not> wants_scratch c"
  shows "sd_scratch d1 = NULL"
  using assms
  by (cases c) (auto simp: sd_step_def wants_scratch_def split: prod.splits)

lemma sd_run_scratch_null:
  assumes "sd_run cfg rt cs d w = (r, d1, w1)" and "sd_scratch d = NULL"
    and "\<forall>c \<in> set cs. \<not> wants_scratch c"
  shows "sd_scratch d1 = NULL"
  using assms
proof (induction cs arbitrary: d w)
  case Nil
  then show ?case by simp
next
  case (Cons c cs)
  obtain r' d' w' where st: "sd_step cfg rt c d w = (r', d', w')"
    by (cases "sd_step cfg rt c d w") auto
  have k: "sd_scratch d' = NULL"
    using sd_step_scratch_null [OF st Cons.prems(2)] Cons.prems(3) by simp
  show ?case
  proof (cases r')
    case (Inl e)
    with Cons.prems st k show ?thesis by simp
  next
    case (Inr u)
    with Cons.prems st have "sd_run cfg rt cs d' w' = (r, d1, w1)" by simp
    from Cons.IH [OF this k] Cons.prems(3) show ?thesis by simp
  qed
qed

lemma scratchpad_slot_inv:
  assumes "scratchpad cfg rt d w = (Inr p, d1, w1)" and "slot_inv d"
  shows "slot_inv d1"
  using assms
  by (auto simp: scratchpad_def slot_inv_def split: if_splits prod.splits sum.splits)

lemma semaphore_slot_inv:
  assumes "semaphore cfg rt d w = (Inr s, d1, w1)" and "slot_inv d"
    and "assert_compiled cfg"
  shows "slot_inv d1"
proof (cases "sd_semaphore d = NULL")
  case True
  from semaphore_first(1,2,5) [OF assms(1) True] assms(3) show ?thesis
    by (simp add: slot_inv_def)
next
  case False
  from semaphore_keeps [OF assms(1) False] assms(2) show ?thesis by simp
qed

lemma sd_step_slot_inv:
  assumes "sd_step cfg rt c d w = (Inr u, d1, w1)" and "slot_inv d"
    and "assert_compiled cfg"
  shows "slot_inv d1"
proof (cases c)
  case Op_scratchpad
  with assms(1) obtain p where "scratchpad cfg rt d w = (Inr p, d1, w1)"
    by (cases "scratchpad cfg rt d w"; cases "fst (scratchpad cfg rt d w)") (auto simp: sd_step_def)
  from scratchpad_slot_inv [OF this assms(2)] show ?thesis .
next
  case Op_semaphore
  with assms(1) obtain s where "semaphore cfg rt d w = (Inr s, d1, w1)"
    by (cases "semaphore cfg rt d w"; cases "fst (semaphore cfg rt d w)") (auto simp: sd_step_def)
  from semaphore_slot_inv [OF this assms(2,3)] show ?thesis .
qed (use assms in \<open>auto simp: sd_step_def split: prod.splits\<close>)

lemma sd_run_slot_inv:
  assumes "sd_run cfg rt cs d w = (Inr u, d1, w1)" and "slot_inv d"
    and "assert_compiled cfg"
  shows "slot_inv d1"
  using assms(1,2)
proof (induction cs arbitrary: d w)
  case Nil
  then show ?case by simp
next
  case (Cons c cs)
  obtain r' d' w' where st: "sd_step cfg rt c d w = (r', d', w')"
    by (cases "sd_step cfg rt c d w") auto
  with Cons.prems(1) obtain u' where r': "r' = Inr u'"
    by (cases r') auto
  with Cons.prems(1) st have run: "sd_run cfg rt cs d' w' = (Inr u, d1, w1)" by simp
  from sd_step_slot_inv [OF st [unfolded r'] Cons.prems(2) assms(3)]
  have "slot_inv d'" .
  from Cons.IH [OF run this] show ?case .
qed

lemma fresh_slot_inv: "fresh d \<Longrightarrow> slot_inv d"
  by (simp add: fresh_def slot_inv_def)

lemma sd_step_scratch_set:
  assumes "sd_step cfg rt c d w = (Inr u, d1, w1)" and "slot_inv d"
    and "assert_compiled cfg" and "wants_scratch c"
  shows "sd_scratch d1 \<noteq> NULL"
proof (cases "c = Op_scratchpad")
  case True
  with assms(1) obtain p where sc: "scratchpad cfg rt d w = (Inr p, d1, w1)"
    by (cases "scratchpad cfg rt d w"; cases "fst (scratchpad cfg rt d w)") (auto simp: sd_step_def)
  from scratchpad_returns(1,2) [OF sc] assms(3) show ?thesis by simp
next
  case False
  with assms(4) have c: "c = Op_semaphore" by (simp add: wants_scratch_def)
  with assms(1) obtain s where se: "semaphore cfg rt d w = (Inr s, d1, w1)"
    by (cases "semaphore cfg rt d w"; cases "fst (semaphore cfg rt d w)") (auto simp: sd_step_def)
  show ?thesis
  proof (cases "sd_semaphore d = NULL")
    case True
    from semaphore_first(5) [OF se True assms(3)] show ?thesis .
  next
    case False
    from semaphore_keeps [OF se False] assms(2) False show ?thesis
      by (simp add: slot_inv_def)
  qed
qed

lemma sd_run_scratch_set:
  assumes "sd_run cfg rt cs d w = (Inr u, d1, w1)" and "slot_inv d"
    and "assert_compiled cfg" and "\<exists>c \<in> set cs. wants_scratch c"
  shows "sd_scratch d1 \<noteq> NULL"
  using assms(1,2,4)
proof (induction cs arbitrary: d w)
  case Nil
  then show ?case by simp
next
  case (Cons c cs)
  obtain r' d' w' where st: "sd_step cfg rt c d w = (r', d', w')"
    by (cases "sd_step cfg rt c d w") auto
  with Cons.prems(1) obtain u' where r': "r' = Inr u'"
    by (cases r') auto
  with Cons.prems(1) st have run: "sd_run cfg rt cs d' w' = (Inr u, d1, w1)" by simp
  have inv: "slot_inv d'"
    using sd_step_slot_inv [OF st [unfolded r'] Cons.prems(2) assms(3)] .
  show ?case
  proof (cases "wants_scratch c")
    case True
    from sd_step_scratch_set [OF st [unfolded r'] Cons.prems(2) assms(3) True]
    have "sd_scratch d' \<noteq> NULL" .
    from sd_run_keeps_scratch [OF run this] this show ?thesis by simp
  next
    case False
    with Cons.prems(3) have "\<exists>c \<in> set cs. wants_scratch c" by simp
    from Cons.IH [OF run inv this] show ?thesis .
  qed
qed

lemma semaphore_with_block:
  assumes "sd_semaphore d = NULL" and "sd_scratch d \<noteq> NULL"
    and "rtMemsetAsync rt (calls w) (sd_scratch d + 1024) 0 4 (stream d w) = sz"
  shows "semaphore cfg rt d w =
     (if assert_compiled cfg \<and> sz \<noteq> gpuSuccess then Inl AssertionFailed
      else Inr (sd_scratch d + 1024),
      d\<lparr>sd_semaphore := sd_scratch d + 1024\<rparr>,
      w\<lparr>calls := calls w @ [MemsetAsync (sd_scratch d + 1024) 0 4 (stream d w)]\<rparr>)"
  using assms
  by (simp add: semaphore_def scratchpad_def gpuMemsetAsync_def issue_def assert_aborts_def
      stream_def kGpuScratchSize_def sizeof_unsigned_int_def Let_def)

lemma semaphore_fresh:
  assumes "sd_semaphore d = NULL" and "sd_scratch d = NULL"
    and "rtSetDevice rt (calls w) (sd_device d) = sw"
    and "rtMalloc rt (calls w @ [SetDevice (sd_device d)]) 1028 = (sm, p)"
    and "rtMemsetAsync rt (calls w @ [SetDevice (sd_device d), Malloc 1028]) (p + 1024) 0 4
           (stream d w) = sz"
  shows "semaphore cfg rt d w =
     (if assert_compiled cfg \<and> sw \<noteq> gpuSuccess
      then (Inl AssertionFailed, d, w\<lparr>calls := calls w @ [SetDevice (sd_device d)]\<rparr>)
      else if assert_compiled cfg \<and> (sm \<noteq> gpuSuccess \<or> p = NULL)
      then (Inl AssertionFailed, d, w\<lparr>calls := calls w @ [SetDevice (sd_device d), Malloc 1028]\<rparr>)
      else (if assert_compiled cfg \<and> sz \<noteq> gpuSuccess then Inl AssertionFailed
            else Inr (p + 1024),
            d\<lparr>sd_scratch := p, sd_semaphore := p + 1024\<rparr>,
            w\<lparr>calls := calls w @ [SetDevice (sd_device d), Malloc 1028,
                                   MemsetAsync (p + 1024) 0 4 (stream d w)]\<rparr>))"
proof -
  have s: "deref_stream (w\<lparr>calls := cs\<rparr>) sp = deref_stream w sp" for cs sp
    by (rule deref_stream_cong) simp
  show ?thesis
    using assms(1,5) scratchpad_first [OF assms(2,3,4), of cfg]
    by (simp add: semaphore_def gpuMemsetAsync_def issue_def assert_aborts_def stream_def s
        kGpuScratchSize_def sizeof_unsigned_int_def Let_def)
qed

text \<open>
  C3, as the code has it. The first \<open>semaphore()\<close> on an object takes the scratch pointer
  from \<open>scratchpad()\<close> (allocating the block when \<open>scratch_\<close> is null), sets \<open>semaphore_\<close> to that
  pointer plus \<open>kGpuScratchSize\<close> = 1024 and issues exactly one \<open>gpuMemsetAsync\<close>: value 0,
  \<open>sizeof(unsigned int)\<close> = 4 bytes, at that address, on the bound stream. Every later call
  returns the same pointer and issues no runtime call, whatever ran in between. Where
  \<open>assert\<close> is compiled in, the pointer returned by any call on an object that started
  fresh is 1024 bytes past the start of a scratch block that exists and stays. Where \<open>assert\<close>
  expands to nothing, the first call goes on with whatever \<open>gpuMalloc\<close> left: for a null
  pointer the semaphore is the address 1024.
\<close>

theorem semaphore_slot:
  "kGpuScratchSize = 1024 \<and> sizeof_unsigned_int = 4
   \<and> (sd_semaphore d \<noteq> NULL \<longrightarrow> semaphore cfg rt d w = (Inr (sd_semaphore d), d, w))
   \<and> (sd_semaphore d = NULL \<and> sd_scratch d \<noteq> NULL
        \<and> rtMemsetAsync rt (calls w) (sd_scratch d + 1024) 0 4 (stream d w) = sz \<longrightarrow>
        semaphore cfg rt d w =
          (if assert_compiled cfg \<and> sz \<noteq> gpuSuccess then Inl AssertionFailed
           else Inr (sd_scratch d + 1024),
           d\<lparr>sd_semaphore := sd_scratch d + 1024\<rparr>,
           w\<lparr>calls := calls w @ [MemsetAsync (sd_scratch d + 1024) 0 4 (stream d w)]\<rparr>))
   \<and> (sd_semaphore d = NULL \<and> sd_scratch d = NULL
        \<and> rtSetDevice rt (calls w) (sd_device d) = sw
        \<and> rtMalloc rt (calls w @ [SetDevice (sd_device d)]) 1028 = (sm, q)
        \<and> rtMemsetAsync rt (calls w @ [SetDevice (sd_device d), Malloc 1028]) (q + 1024) 0 4
             (stream d w) = sf \<longrightarrow>
        semaphore cfg rt d w =
          (if assert_compiled cfg \<and> sw \<noteq> gpuSuccess
           then (Inl AssertionFailed, d, w\<lparr>calls := calls w @ [SetDevice (sd_device d)]\<rparr>)
           else if assert_compiled cfg \<and> (sm \<noteq> gpuSuccess \<or> q = NULL)
           then (Inl AssertionFailed, d,
                 w\<lparr>calls := calls w @ [SetDevice (sd_device d), Malloc 1028]\<rparr>)
           else (if assert_compiled cfg \<and> sf \<noteq> gpuSuccess then Inl AssertionFailed
                 else Inr (q + 1024),
                 d\<lparr>sd_scratch := q, sd_semaphore := q + 1024\<rparr>,
                 w\<lparr>calls := calls w @ [SetDevice (sd_device d), Malloc 1028,
                                        MemsetAsync (q + 1024) 0 4 (stream d w)]\<rparr>)))
   \<and> (\<forall>s d1 w1. semaphore cfg rt d w = (Inr s, d1, w1) \<longrightarrow>
        sd_semaphore d1 = s \<and> s \<noteq> NULL
        \<and> (sd_semaphore d = NULL \<longrightarrow> s = sd_scratch d1 + 1024)
        \<and> (\<forall>cs w2 r d2 w3. sd_run cfg rt cs d1 w2 = (r, d2, w3) \<longrightarrow>
              semaphore cfg rt d2 w3 = (Inr s, d2, w3))
        \<and> (assert_compiled cfg \<and> fresh d0 \<and> sd_run cfg rt cs0 d0 w0 = (Inr (), d, w) \<longrightarrow>
              sd_scratch d1 \<noteq> NULL \<and> s = sd_scratch d1 + 1024
              \<and> (\<forall>cs w2 r d2 w3. sd_run cfg rt cs d1 w2 = (r, d2, w3) \<longrightarrow>
                    s = sd_scratch d2 + 1024)))"
proof -
  have k: "kGpuScratchSize = 1024" by (simp add: kGpuScratchSize_def)
  have k4: "sizeof_unsigned_int = 4" by (simp add: sizeof_unsigned_int_def)
  have a: "sd_semaphore d \<noteq> NULL \<longrightarrow> semaphore cfg rt d w = (Inr (sd_semaphore d), d, w)"
    by (simp add: semaphore_again)
  have b: "sd_semaphore d = NULL \<and> sd_scratch d \<noteq> NULL
        \<and> rtMemsetAsync rt (calls w) (sd_scratch d + 1024) 0 4 (stream d w) = sz \<longrightarrow>
        semaphore cfg rt d w =
          (if assert_compiled cfg \<and> sz \<noteq> gpuSuccess then Inl AssertionFailed
           else Inr (sd_scratch d + 1024),
           d\<lparr>sd_semaphore := sd_scratch d + 1024\<rparr>,
           w\<lparr>calls := calls w @ [MemsetAsync (sd_scratch d + 1024) 0 4 (stream d w)]\<rparr>)"
    using semaphore_with_block [of d rt w sz cfg] by blast
  have c: "sd_semaphore d = NULL \<and> sd_scratch d = NULL
        \<and> rtSetDevice rt (calls w) (sd_device d) = sw
        \<and> rtMalloc rt (calls w @ [SetDevice (sd_device d)]) 1028 = (sm, q)
        \<and> rtMemsetAsync rt (calls w @ [SetDevice (sd_device d), Malloc 1028]) (q + 1024) 0 4
             (stream d w) = sf \<longrightarrow>
        semaphore cfg rt d w =
          (if assert_compiled cfg \<and> sw \<noteq> gpuSuccess
           then (Inl AssertionFailed, d, w\<lparr>calls := calls w @ [SetDevice (sd_device d)]\<rparr>)
           else if assert_compiled cfg \<and> (sm \<noteq> gpuSuccess \<or> q = NULL)
           then (Inl AssertionFailed, d,
                 w\<lparr>calls := calls w @ [SetDevice (sd_device d), Malloc 1028]\<rparr>)
           else (if assert_compiled cfg \<and> sf \<noteq> gpuSuccess then Inl AssertionFailed
                 else Inr (q + 1024),
                 d\<lparr>sd_scratch := q, sd_semaphore := q + 1024\<rparr>,
                 w\<lparr>calls := calls w @ [SetDevice (sd_device d), Malloc 1028,
                                        MemsetAsync (q + 1024) 0 4 (stream d w)]\<rparr>))"
    using semaphore_fresh [of d rt w sw sm q sf cfg] by blast
  have e: "\<forall>s d1 w1. semaphore cfg rt d w = (Inr s, d1, w1) \<longrightarrow>
        sd_semaphore d1 = s \<and> s \<noteq> NULL
        \<and> (sd_semaphore d = NULL \<longrightarrow> s = sd_scratch d1 + 1024)
        \<and> (\<forall>cs w2 r d2 w3. sd_run cfg rt cs d1 w2 = (r, d2, w3) \<longrightarrow>
              semaphore cfg rt d2 w3 = (Inr s, d2, w3))
        \<and> (assert_compiled cfg \<and> fresh d0 \<and> sd_run cfg rt cs0 d0 w0 = (Inr (), d, w) \<longrightarrow>
              sd_scratch d1 \<noteq> NULL \<and> s = sd_scratch d1 + 1024
              \<and> (\<forall>cs w2 r d2 w3. sd_run cfg rt cs d1 w2 = (r, d2, w3) \<longrightarrow>
                    s = sd_scratch d2 + 1024))"
  proof (intro allI impI)
    fix s d1 w1
    assume ret: "semaphore cfg rt d w = (Inr s, d1, w1)"
    have s1: "sd_semaphore d1 = s \<and> s \<noteq> NULL"
    proof (cases "sd_semaphore d = NULL")
      case True
      from semaphore_first(2,3) [OF ret True] show ?thesis by simp
    next
      case False
      from semaphore_again [OF False, of cfg rt w] ret False show ?thesis by auto
    qed
    have first_call: "sd_semaphore d = NULL \<longrightarrow> s = sd_scratch d1 + 1024"
      using semaphore_first(1) [OF ret] by (simp add: k)
    have later: "\<forall>cs w2 r d2 w3. sd_run cfg rt cs d1 w2 = (r, d2, w3) \<longrightarrow>
              semaphore cfg rt d2 w3 = (Inr s, d2, w3)"
    proof (intro allI impI)
      fix cs w2 r d2 w3
      assume r2: "sd_run cfg rt cs d1 w2 = (r, d2, w3)"
      from s1 have nn: "sd_semaphore d1 \<noteq> NULL" by simp
      from sd_run_keeps_semaphore [OF r2 nn] s1
      have "sd_semaphore d2 = s" "sd_semaphore d2 \<noteq> NULL"
        by simp_all
      with semaphore_again [of d2 cfg rt w3] show "semaphore cfg rt d2 w3 = (Inr s, d2, w3)"
        by simp
    qed
    have slot: "assert_compiled cfg \<and> fresh d0 \<and> sd_run cfg rt cs0 d0 w0 = (Inr (), d, w) \<longrightarrow>
              sd_scratch d1 \<noteq> NULL \<and> s = sd_scratch d1 + 1024
              \<and> (\<forall>cs w2 r d2 w3. sd_run cfg rt cs d1 w2 = (r, d2, w3) \<longrightarrow>
                    s = sd_scratch d2 + 1024)"
    proof
      assume h: "assert_compiled cfg \<and> fresh d0 \<and> sd_run cfg rt cs0 d0 w0 = (Inr (), d, w)"
      then have live: "assert_compiled cfg" and fr: "fresh d0"
        and run: "sd_run cfg rt cs0 d0 w0 = (Inr (), d, w)"
        by simp_all
      have "slot_inv d" using sd_run_slot_inv [OF run fresh_slot_inv [OF fr] live] .
      from semaphore_slot_inv [OF ret this live] s1
      have pos: "s = sd_scratch d1 + 1024" and nn: "sd_scratch d1 \<noteq> NULL"
        by (auto simp: slot_inv_def k)
      have "\<forall>cs w2 r d2 w3. sd_run cfg rt cs d1 w2 = (r, d2, w3) \<longrightarrow> s = sd_scratch d2 + 1024"
      proof (intro allI impI)
        fix cs w2 r d2 w3
        assume r2: "sd_run cfg rt cs d1 w2 = (r, d2, w3)"
        from sd_run_keeps_scratch [OF r2 nn] pos show "s = sd_scratch d2 + 1024" by simp
      qed
      with pos nn show "sd_scratch d1 \<noteq> NULL \<and> s = sd_scratch d1 + 1024
              \<and> (\<forall>cs w2 r d2 w3. sd_run cfg rt cs d1 w2 = (r, d2, w3) \<longrightarrow>
                    s = sd_scratch d2 + 1024)"
        by simp
    qed
    show "sd_semaphore d1 = s \<and> s \<noteq> NULL
        \<and> (sd_semaphore d = NULL \<longrightarrow> s = sd_scratch d1 + 1024)
        \<and> (\<forall>cs w2 r d2 w3. sd_run cfg rt cs d1 w2 = (r, d2, w3) \<longrightarrow>
              semaphore cfg rt d2 w3 = (Inr s, d2, w3))
        \<and> (assert_compiled cfg \<and> fresh d0 \<and> sd_run cfg rt cs0 d0 w0 = (Inr (), d, w) \<longrightarrow>
              sd_scratch d1 \<noteq> NULL \<and> s = sd_scratch d1 + 1024
              \<and> (\<forall>cs w2 r d2 w3. sd_run cfg rt cs d1 w2 = (r, d2, w3) \<longrightarrow>
                    s = sd_scratch d2 + 1024))"
      by (rule conjI [OF conjunct1 [OF s1] conjI [OF conjunct2 [OF s1]
            conjI [OF first_call conjI [OF later slot]]]])
  qed
  show ?thesis
    by (rule conjI [OF k conjI [OF k4 conjI [OF a conjI [OF b conjI [OF c e]]]]])
qed

theorem semaphore_slot_witness:
  "semaphore gpu_host_pass rt_good sd_one w_start =
     (Inr 9216, sd_one\<lparr>sd_scratch := 8192, sd_semaphore := 9216\<rparr>,
      w_start\<lparr>calls := [SetDevice 1, Malloc 1028, MemsetAsync 9216 0 4 0]\<rparr>)
   \<and> semaphore gpu_host_pass rt_good (sd_one\<lparr>sd_scratch := 8192, sd_semaphore := 9216\<rparr>)
       (w_start\<lparr>calls := [SetDevice 1, Malloc 1028, MemsetAsync 9216 0 4 0, SetDevice 1, Malloc 16]\<rparr>) =
     (Inr 9216, sd_one\<lparr>sd_scratch := 8192, sd_semaphore := 9216\<rparr>,
      w_start\<lparr>calls := [SetDevice 1, Malloc 1028, MemsetAsync 9216 0 4 0, SetDevice 1, Malloc 16]\<rparr>)
   \<and> (9216 :: nat) = sd_scratch (sd_one\<lparr>sd_scratch := 8192, sd_semaphore := 9216\<rparr>) + 1024"
proof -
  have n: "sd_semaphore sd_one = NULL" "sd_scratch sd_one = NULL" and dv: "sd_device sd_one = 1"
    by (simp_all add: sd_one_def)
  have f: "fresh sd_one" by (simp add: fresh_def sd_one_def)
  have st: "stream sd_one w_start = 0"
    by (simp add: stream_def deref_stream_def sd_one_def gpuStreamDefault_def)
  have sw: "rtSetDevice rt_good (calls w_start) (sd_device sd_one) = gpuSuccess"
    by (simp add: rt_good_def)
  have sm: "rtMalloc rt_good (calls w_start @ [SetDevice (sd_device sd_one)]) 1028 = (gpuSuccess, 8192)"
    by (simp add: rt_good_def w_start_def)
  have sf: "rtMemsetAsync rt_good (calls w_start @ [SetDevice (sd_device sd_one), Malloc 1028])
              (8192 + 1024) 0 4 (stream sd_one w_start) = gpuSuccess"
    by (simp add: rt_good_def)
  have live: "assert_compiled gpu_host_pass"
    by (simp add: assert_compiled_def gpu_host_pass_def)
  have c0: "calls w_start = []" by (simp add: w_start_def)
  have r0: "sd_run gpu_host_pass rt_good [] sd_one w_start = (Inr (), sd_one, w_start)"
    by simp
  have r: "sd_run gpu_host_pass rt_good [Op_scratchpad, Op_allocate 16]
             (sd_one\<lparr>sd_scratch := 8192, sd_semaphore := 9216\<rparr>)
             (w_start\<lparr>calls := [SetDevice 1, Malloc 1028, MemsetAsync 9216 0 4 0]\<rparr>) =
     (Inr (), sd_one\<lparr>sd_scratch := 8192, sd_semaphore := 9216\<rparr>,
      w_start\<lparr>calls := [SetDevice 1, Malloc 1028, MemsetAsync 9216 0 4 0, SetDevice 1, Malloc 16]\<rparr>)"
    by (simp add: stream_device_defs fixture_defs)
  note t = semaphore_slot
             [where d = sd_one and cfg = gpu_host_pass and rt = rt_good and w = w_start
                and sw = gpuSuccess and sm = gpuSuccess and q = 8192 and sf = gpuSuccess
                and ?d0.0 = sd_one and ?cs0.0 = "[]" and ?w0.0 = w_start]
  note fresh_case = t [THEN conjunct2, THEN conjunct2, THEN conjunct2, THEN conjunct2, THEN conjunct1]
  note returned = t [THEN conjunct2, THEN conjunct2, THEN conjunct2, THEN conjunct2, THEN conjunct2]
  have "semaphore gpu_host_pass rt_good sd_one w_start =
          (if assert_compiled gpu_host_pass \<and> gpuSuccess \<noteq> gpuSuccess
           then (Inl AssertionFailed, sd_one,
                 w_start\<lparr>calls := calls w_start @ [SetDevice (sd_device sd_one)]\<rparr>)
           else if assert_compiled gpu_host_pass \<and> (gpuSuccess \<noteq> gpuSuccess \<or> (8192 :: nat) = NULL)
           then (Inl AssertionFailed, sd_one,
                 w_start\<lparr>calls := calls w_start @ [SetDevice (sd_device sd_one), Malloc 1028]\<rparr>)
           else (if assert_compiled gpu_host_pass \<and> gpuSuccess \<noteq> gpuSuccess then Inl AssertionFailed
                 else Inr (8192 + 1024),
                 sd_one\<lparr>sd_scratch := 8192, sd_semaphore := 8192 + 1024\<rparr>,
                 w_start\<lparr>calls := calls w_start @ [SetDevice (sd_device sd_one), Malloc 1028,
                                        MemsetAsync (8192 + 1024) 0 4 (stream sd_one w_start)]\<rparr>))"
    by (rule mp [OF fresh_case]) (intro conjI n sw sm sf)
  then have first_call: "semaphore gpu_host_pass rt_good sd_one w_start =
     (Inr 9216, sd_one\<lparr>sd_scratch := 8192, sd_semaphore := 9216\<rparr>,
      w_start\<lparr>calls := [SetDevice 1, Malloc 1028, MemsetAsync 9216 0 4 0]\<rparr>)"
    by (simp add: dv c0 st)
  note after = returned [rule_format, OF first_call]
  have later: "semaphore gpu_host_pass rt_good (sd_one\<lparr>sd_scratch := 8192, sd_semaphore := 9216\<rparr>)
       (w_start\<lparr>calls := [SetDevice 1, Malloc 1028, MemsetAsync 9216 0 4 0, SetDevice 1, Malloc 16]\<rparr>) =
     (Inr 9216, sd_one\<lparr>sd_scratch := 8192, sd_semaphore := 9216\<rparr>,
      w_start\<lparr>calls := [SetDevice 1, Malloc 1028, MemsetAsync 9216 0 4 0, SetDevice 1, Malloc 16]\<rparr>)"
    by (rule after [THEN conjunct2, THEN conjunct2, THEN conjunct2, THEN conjunct1, rule_format, OF r])
  have pos: "(9216 :: nat) = sd_scratch (sd_one\<lparr>sd_scratch := 8192, sd_semaphore := 9216\<rparr>) + 1024"
    by (rule after [THEN conjunct2, THEN conjunct2, THEN conjunct2, THEN conjunct2, THEN mp,
                    THEN conjunct2, THEN conjunct1])
       (intro conjI live f r0)
  show ?thesis
    by (rule conjI [OF first_call conjI [OF later pos]])
qed

text \<open>
  A release build (\<open>NDEBUG\<close>) with a first \<open>gpuMalloc\<close> that fails and leaves \<open>NULL\<close>:
  \<open>semaphore()\<close> returns the address 1024 and zero-fills four bytes there, with no scratch
  block. A \<open>scratchpad()\<close> after it allocates the block at 20480; \<open>semaphore()\<close> still returns
  1024, which is not 1024 bytes past 20480. The HIP device pass starts the same way.
\<close>

theorem semaphore_outside_block_counterexample:
  "semaphore release_host_pass rt_nomem sd_one w_start =
     (Inr 1024, sd_one\<lparr>sd_semaphore := 1024\<rparr>,
      w_start\<lparr>calls := [SetDevice 1, Malloc 1028, MemsetAsync 1024 0 4 0]\<rparr>)
   \<and> scratchpad release_host_pass rt_nomem (sd_one\<lparr>sd_semaphore := 1024\<rparr>)
       (w_start\<lparr>calls := [SetDevice 1, Malloc 1028, MemsetAsync 1024 0 4 0]\<rparr>) =
     (Inr 20480, sd_one\<lparr>sd_scratch := 20480, sd_semaphore := 1024\<rparr>,
      w_start\<lparr>calls := [SetDevice 1, Malloc 1028, MemsetAsync 1024 0 4 0, SetDevice 1, Malloc 1028]\<rparr>)
   \<and> semaphore release_host_pass rt_nomem (sd_one\<lparr>sd_scratch := 20480, sd_semaphore := 1024\<rparr>)
       (w_start\<lparr>calls := [SetDevice 1, Malloc 1028, MemsetAsync 1024 0 4 0, SetDevice 1, Malloc 1028]\<rparr>) =
     (Inr 1024, sd_one\<lparr>sd_scratch := 20480, sd_semaphore := 1024\<rparr>,
      w_start\<lparr>calls := [SetDevice 1, Malloc 1028, MemsetAsync 1024 0 4 0, SetDevice 1, Malloc 1028]\<rparr>)
   \<and> semaphore hip_device_pass rt_nomem sd_one w_start =
     (Inr 1024, sd_one\<lparr>sd_semaphore := 1024\<rparr>,
      w_start\<lparr>calls := [SetDevice 1, Malloc 1028, MemsetAsync 1024 0 4 0]\<rparr>)"
  by (simp add: semaphore_def scratchpad_def allocate_def gpuSetDevice_def gpuMalloc_def
      gpuMemsetAsync_def issue_def assert_aborts_def assert_compiled_def deref_stream_def
      gpuStreamDefault_def release_host_pass_def hip_device_pass_def rt_nomem_def rt_good_def
      sd_one_def w_start_def kGpuScratchSize_def sizeof_unsigned_int_def)

section \<open>Destruction\<close>

lemma frees_append: "frees (xs @ ys) = frees xs @ frees ys"
  by (induction xs rule: frees.induct) simp_all

lemma deallocate_calls:
  assumes "deallocate cfg rt d b w = (r, w1)" and "b \<noteq> NULL"
  shows "calls w1 = calls w
           @ (if assert_aborts cfg (rtSetDevice rt (calls w) (sd_device d) = gpuSuccess)
              then [SetDevice (sd_device d)] else [SetDevice (sd_device d), Free b])"
    and "r = Inr () \<Longrightarrow> calls w1 = calls w @ [SetDevice (sd_device d), Free b]"
    and "stream_mem w1 = stream_mem w" and "objects w1 = objects w"
    and "rtSetDevice rt (calls w) (sd_device d) = gpuSuccess \<Longrightarrow>
         rtFree rt (calls w @ [SetDevice (sd_device d)]) b = gpuSuccess \<Longrightarrow> r = Inr ()"
  using assms
  by (auto simp: deallocate_def gpuSetDevice_def gpuFree_def issue_def assert_aborts_def
      split: if_splits prod.splits)

lemma deallocate_eq:
  assumes "rtSetDevice rt (calls w) (sd_device d) = sw"
    and "rtFree rt (calls w @ [SetDevice (sd_device d)]) b = sf"
    and "b \<noteq> NULL"
  shows "deallocate cfg rt d b w =
     (if assert_compiled cfg \<and> sw \<noteq> gpuSuccess
      then (Inl AssertionFailed, w\<lparr>calls := calls w @ [SetDevice (sd_device d)]\<rparr>)
      else (if assert_compiled cfg \<and> sf \<noteq> gpuSuccess then Inl AssertionFailed else Inr (),
            w\<lparr>calls := calls w @ [SetDevice (sd_device d), Free b]\<rparr>))"
  using assms
  by (simp add: deallocate_def gpuSetDevice_def gpuFree_def assert_aborts_def issue_def)

text \<open>
  C4, as the code has it. The destructor looks at \<open>scratch_\<close> only. When it is null the
  destructor issues no runtime call; it is null on an object on which neither \<open>scratchpad()\<close>
  nor \<open>semaphore()\<close> (which calls it) ever ran, and, where \<open>assert\<close> expands to nothing, also
  after a \<open>scratchpad()\<close> whose \<open>gpuMalloc\<close> left a null pointer. When it is set the destructor
  switches to the bound device and hands exactly one pointer to \<open>gpuFree\<close>, the scratch
  block, unless the assertion on the device switch ends the process before the free.
  Where \<open>assert\<close> is compiled in, \<open>scratch_\<close> is set after every run that called \<open>scratchpad()\<close>
  or \<open>semaphore()\<close>; in every build it is the pointer a \<open>scratchpad()\<close> returned when that was
  not null. No runtime call of the destructor takes a stream, and the caller's stream
  objects are left as they are.
\<close>

theorem destroy_frees_scratch:
  "(sd_scratch d = NULL \<longrightarrow> GpuStreamDevice_destroy cfg rt d w = (Inr (), w))
   \<and> (sd_scratch d \<noteq> NULL
        \<and> rtSetDevice rt (calls w) (sd_device d) = sw
        \<and> rtFree rt (calls w @ [SetDevice (sd_device d)]) (sd_scratch d) = sf \<longrightarrow>
        GpuStreamDevice_destroy cfg rt d w =
          (if assert_compiled cfg \<and> sw \<noteq> gpuSuccess
           then (Inl AssertionFailed, w\<lparr>calls := calls w @ [SetDevice (sd_device d)]\<rparr>)
           else (if assert_compiled cfg \<and> sf \<noteq> gpuSuccess then Inl AssertionFailed else Inr (),
                 w\<lparr>calls := calls w @ [SetDevice (sd_device d), Free (sd_scratch d)]\<rparr>)))
   \<and> (\<forall>r w1. GpuStreamDevice_destroy cfg rt d w = (r, w1) \<longrightarrow>
        stream_mem w1 = stream_mem w
        \<and> length (frees (calls w1)) \<le> Suc (length (frees (calls w)))
        \<and> (r = Inr () \<longrightarrow>
             frees (calls w1) = frees (calls w) @ (if sd_scratch d = NULL then [] else [sd_scratch d])))
   \<and> (fresh d0 \<and> sd_run cfg rt cs d0 w0 = (Inr (), d, w) \<longrightarrow>
        (Op_scratchpad \<notin> set cs \<and> Op_semaphore \<notin> set cs \<longrightarrow> sd_scratch d = NULL)
        \<and> (assert_compiled cfg \<and> (Op_scratchpad \<in> set cs \<or> Op_semaphore \<in> set cs) \<longrightarrow>
             sd_scratch d \<noteq> NULL))
   \<and> (scratchpad cfg rt da wa = (Inr p, db, wb) \<and> p \<noteq> NULL
        \<and> sd_run cfg rt cs1 db wc = (Inr (), d, w) \<longrightarrow> sd_scratch d = p)"
proof -
  have a: "sd_scratch d = NULL \<longrightarrow> GpuStreamDevice_destroy cfg rt d w = (Inr (), w)"
    by (simp add: GpuStreamDevice_destroy_def)
  have b: "sd_scratch d \<noteq> NULL
        \<and> rtSetDevice rt (calls w) (sd_device d) = sw
        \<and> rtFree rt (calls w @ [SetDevice (sd_device d)]) (sd_scratch d) = sf \<longrightarrow>
        GpuStreamDevice_destroy cfg rt d w =
          (if assert_compiled cfg \<and> sw \<noteq> gpuSuccess
           then (Inl AssertionFailed, w\<lparr>calls := calls w @ [SetDevice (sd_device d)]\<rparr>)
           else (if assert_compiled cfg \<and> sf \<noteq> gpuSuccess then Inl AssertionFailed else Inr (),
                 w\<lparr>calls := calls w @ [SetDevice (sd_device d), Free (sd_scratch d)]\<rparr>))"
  proof
    assume h: "sd_scratch d \<noteq> NULL
        \<and> rtSetDevice rt (calls w) (sd_device d) = sw
        \<and> rtFree rt (calls w @ [SetDevice (sd_device d)]) (sd_scratch d) = sf"
    then have nn: "sd_scratch d \<noteq> NULL"
      and s1: "rtSetDevice rt (calls w) (sd_device d) = sw"
      and s2: "rtFree rt (calls w @ [SetDevice (sd_device d)]) (sd_scratch d) = sf"
      by simp_all
    from deallocate_eq [OF s1 s2 nn, of cfg] nn
    show "GpuStreamDevice_destroy cfg rt d w =
          (if assert_compiled cfg \<and> sw \<noteq> gpuSuccess
           then (Inl AssertionFailed, w\<lparr>calls := calls w @ [SetDevice (sd_device d)]\<rparr>)
           else (if assert_compiled cfg \<and> sf \<noteq> gpuSuccess then Inl AssertionFailed else Inr (),
                 w\<lparr>calls := calls w @ [SetDevice (sd_device d), Free (sd_scratch d)]\<rparr>))"
      by (simp add: GpuStreamDevice_destroy_def)
  qed
  have c: "\<forall>r w1. GpuStreamDevice_destroy cfg rt d w = (r, w1) \<longrightarrow>
        stream_mem w1 = stream_mem w
        \<and> length (frees (calls w1)) \<le> Suc (length (frees (calls w)))
        \<and> (r = Inr () \<longrightarrow>
             frees (calls w1) = frees (calls w) @ (if sd_scratch d = NULL then [] else [sd_scratch d]))"
  proof (intro allI impI)
    fix r w1
    assume des: "GpuStreamDevice_destroy cfg rt d w = (r, w1)"
    show "stream_mem w1 = stream_mem w
        \<and> length (frees (calls w1)) \<le> Suc (length (frees (calls w)))
        \<and> (r = Inr () \<longrightarrow>
             frees (calls w1) = frees (calls w) @ (if sd_scratch d = NULL then [] else [sd_scratch d]))"
    proof (cases "sd_scratch d = NULL")
      case True
      with des show ?thesis by (simp add: GpuStreamDevice_destroy_def)
    next
      case False
      with des have dea: "deallocate cfg rt d (sd_scratch d) w = (r, w1)"
        by (simp add: GpuStreamDevice_destroy_def)
      from deallocate_calls(1,2,3) [OF dea False] False show ?thesis
        by (simp add: frees_append)
    qed
  qed
  have e: "fresh d0 \<and> sd_run cfg rt cs d0 w0 = (Inr (), d, w) \<longrightarrow>
        (Op_scratchpad \<notin> set cs \<and> Op_semaphore \<notin> set cs \<longrightarrow> sd_scratch d = NULL)
        \<and> (assert_compiled cfg \<and> (Op_scratchpad \<in> set cs \<or> Op_semaphore \<in> set cs) \<longrightarrow>
             sd_scratch d \<noteq> NULL)"
  proof
    assume h: "fresh d0 \<and> sd_run cfg rt cs d0 w0 = (Inr (), d, w)"
    then have fr: "fresh d0" and run: "sd_run cfg rt cs d0 w0 = (Inr (), d, w)"
      by simp_all
    have inv0: "sd_scratch d0 = NULL" using fr by (simp add: fresh_def)
    have never: "Op_scratchpad \<notin> set cs \<and> Op_semaphore \<notin> set cs \<longrightarrow> sd_scratch d = NULL"
    proof
      assume "Op_scratchpad \<notin> set cs \<and> Op_semaphore \<notin> set cs"
      then have "\<forall>c \<in> set cs. \<not> wants_scratch c" by (auto simp: wants_scratch_def)
      from sd_run_scratch_null [OF run inv0 this] show "sd_scratch d = NULL" .
    qed
    have called: "assert_compiled cfg \<and> (Op_scratchpad \<in> set cs \<or> Op_semaphore \<in> set cs) \<longrightarrow>
             sd_scratch d \<noteq> NULL"
    proof
      assume g: "assert_compiled cfg \<and> (Op_scratchpad \<in> set cs \<or> Op_semaphore \<in> set cs)"
      then have live: "assert_compiled cfg" by simp
      from g have ex: "\<exists>c \<in> set cs. wants_scratch c" by (auto simp: wants_scratch_def)
      from sd_run_scratch_set [OF run fresh_slot_inv [OF fr] live ex]
      show "sd_scratch d \<noteq> NULL" .
    qed
    from never called
    show "(Op_scratchpad \<notin> set cs \<and> Op_semaphore \<notin> set cs \<longrightarrow> sd_scratch d = NULL)
        \<and> (assert_compiled cfg \<and> (Op_scratchpad \<in> set cs \<or> Op_semaphore \<in> set cs) \<longrightarrow>
             sd_scratch d \<noteq> NULL)"
      by (rule conjI)
  qed
  have f: "scratchpad cfg rt da wa = (Inr p, db, wb) \<and> p \<noteq> NULL
        \<and> sd_run cfg rt cs1 db wc = (Inr (), d, w) \<longrightarrow> sd_scratch d = p"
  proof
    assume h: "scratchpad cfg rt da wa = (Inr p, db, wb) \<and> p \<noteq> NULL
        \<and> sd_run cfg rt cs1 db wc = (Inr (), d, w)"
    then have ret: "scratchpad cfg rt da wa = (Inr p, db, wb)" and p: "p \<noteq> NULL"
      and run: "sd_run cfg rt cs1 db wc = (Inr (), d, w)"
      by simp_all
    from scratchpad_returns(1) [OF ret] p sd_run_keeps_scratch [OF run]
    show "sd_scratch d = p" by simp
  qed
  show ?thesis
    by (rule conjI [OF a conjI [OF b conjI [OF c conjI [OF e f]]]])
qed

theorem destroy_frees_scratch_witness:
  "GpuStreamDevice_destroy gpu_host_pass rt_good (sd_one\<lparr>sd_scratch := 8192\<rparr>)
     (w_start\<lparr>calls := [SetDevice 1, Malloc 1028, SetDevice 1, Malloc 16]\<rparr>) =
     (Inr (), w_start\<lparr>calls := [SetDevice 1, Malloc 1028, SetDevice 1, Malloc 16, SetDevice 1, Free 8192]\<rparr>)
   \<and> frees [SetDevice 1, Malloc 1028, SetDevice 1, Malloc 16, SetDevice 1, Free 8192] = [8192]
   \<and> GpuStreamDevice_destroy gpu_host_pass rt_good sd_one
       (w_start\<lparr>calls := [SetDevice 1, Malloc 16]\<rparr>) = (Inr (), w_start\<lparr>calls := [SetDevice 1, Malloc 16]\<rparr>)"
proof -
  have f: "fresh sd_one" by (simp add: fresh_def sd_one_def)
  have live: "assert_compiled gpu_host_pass"
    by (simp add: assert_compiled_def gpu_host_pass_def)
  have r: "sd_run gpu_host_pass rt_good [Op_scratchpad, Op_allocate 16] sd_one w_start =
     (Inr (), sd_one\<lparr>sd_scratch := 8192\<rparr>,
      w_start\<lparr>calls := [SetDevice 1, Malloc 1028, SetDevice 1, Malloc 16]\<rparr>)"
    by (simp add: stream_device_defs fixture_defs)
  have r0: "sd_run gpu_host_pass rt_good [Op_allocate 16] sd_one w_start =
     (Inr (), sd_one, w_start\<lparr>calls := [SetDevice 1, Malloc 16]\<rparr>)"
    by (simp add: stream_device_defs fixture_defs)
  have nn: "sd_scratch (sd_one\<lparr>sd_scratch := 8192\<rparr>) \<noteq> NULL" by simp
  have sw: "rtSetDevice rt_good
              (calls (w_start\<lparr>calls := [SetDevice 1, Malloc 1028, SetDevice 1, Malloc 16]\<rparr>))
              (sd_device (sd_one\<lparr>sd_scratch := 8192\<rparr>)) = gpuSuccess"
    by (simp add: rt_good_def)
  have sf: "rtFree rt_good
              (calls (w_start\<lparr>calls := [SetDevice 1, Malloc 1028, SetDevice 1, Malloc 16]\<rparr>)
                 @ [SetDevice (sd_device (sd_one\<lparr>sd_scratch := 8192\<rparr>))])
              (sd_scratch (sd_one\<lparr>sd_scratch := 8192\<rparr>)) = gpuSuccess"
    by (simp add: rt_good_def)
  note t = destroy_frees_scratch
             [where d = "sd_one\<lparr>sd_scratch := 8192\<rparr>" and cfg = gpu_host_pass and rt = rt_good
                and w = "w_start\<lparr>calls := [SetDevice 1, Malloc 1028, SetDevice 1, Malloc 16]\<rparr>"
                and sw = gpuSuccess and sf = gpuSuccess]
  have "GpuStreamDevice_destroy gpu_host_pass rt_good (sd_one\<lparr>sd_scratch := 8192\<rparr>)
     (w_start\<lparr>calls := [SetDevice 1, Malloc 1028, SetDevice 1, Malloc 16]\<rparr>) =
          (if assert_compiled gpu_host_pass \<and> gpuSuccess \<noteq> gpuSuccess
           then (Inl AssertionFailed,
                 w_start\<lparr>calls := [SetDevice 1, Malloc 1028, SetDevice 1, Malloc 16]\<rparr>
                   \<lparr>calls := calls (w_start\<lparr>calls := [SetDevice 1, Malloc 1028, SetDevice 1, Malloc 16]\<rparr>)
                       @ [SetDevice (sd_device (sd_one\<lparr>sd_scratch := 8192\<rparr>))]\<rparr>)
           else (if assert_compiled gpu_host_pass \<and> gpuSuccess \<noteq> gpuSuccess
                 then Inl AssertionFailed else Inr (),
                 w_start\<lparr>calls := [SetDevice 1, Malloc 1028, SetDevice 1, Malloc 16]\<rparr>
                   \<lparr>calls := calls (w_start\<lparr>calls := [SetDevice 1, Malloc 1028, SetDevice 1, Malloc 16]\<rparr>)
                       @ [SetDevice (sd_device (sd_one\<lparr>sd_scratch := 8192\<rparr>)),
                          Free (sd_scratch (sd_one\<lparr>sd_scratch := 8192\<rparr>))]\<rparr>))"
    by (rule mp [OF t [THEN conjunct2, THEN conjunct1]]) (intro conjI nn sw sf)
  then have d: "GpuStreamDevice_destroy gpu_host_pass rt_good (sd_one\<lparr>sd_scratch := 8192\<rparr>)
     (w_start\<lparr>calls := [SetDevice 1, Malloc 1028, SetDevice 1, Malloc 16]\<rparr>) =
     (Inr (), w_start\<lparr>calls := [SetDevice 1, Malloc 1028, SetDevice 1, Malloc 16, SetDevice 1, Free 8192]\<rparr>)"
    by (simp add: sd_one_def)
  have "frees (calls (w_start\<lparr>calls := [SetDevice 1, Malloc 1028, SetDevice 1, Malloc 16, SetDevice 1, Free 8192]\<rparr>))
          = frees (calls (w_start\<lparr>calls := [SetDevice 1, Malloc 1028, SetDevice 1, Malloc 16]\<rparr>))
            @ (if sd_scratch (sd_one\<lparr>sd_scratch := 8192\<rparr>) = NULL then []
               else [sd_scratch (sd_one\<lparr>sd_scratch := 8192\<rparr>)])"
    by (rule t [THEN conjunct2, THEN conjunct2, THEN conjunct1, rule_format, OF d,
                THEN conjunct2, THEN conjunct2, THEN mp]) (rule refl)
  then have fr: "frees [SetDevice 1, Malloc 1028, SetDevice 1, Malloc 16, SetDevice 1, Free 8192] = [8192]"
    by simp
  note t0 = destroy_frees_scratch
             [where d = sd_one and cfg = gpu_host_pass and rt = rt_good
                and w = "w_start\<lparr>calls := [SetDevice 1, Malloc 16]\<rparr>"
                and ?d0.0 = sd_one and cs = "[Op_allocate 16]" and ?w0.0 = w_start]
  have "Op_scratchpad \<notin> set [Op_allocate 16] \<and> Op_semaphore \<notin> set [Op_allocate 16]"
    by simp
  with t0 [THEN conjunct2, THEN conjunct2, THEN conjunct2, THEN conjunct1, THEN mp,
           OF conjI [OF f r0], THEN conjunct1]
  have "sd_scratch sd_one = NULL" by (rule mp)
  with t0 [THEN conjunct1]
  have d0: "GpuStreamDevice_destroy gpu_host_pass rt_good sd_one
       (w_start\<lparr>calls := [SetDevice 1, Malloc 16]\<rparr>) = (Inr (), w_start\<lparr>calls := [SetDevice 1, Malloc 16]\<rparr>)"
    by (rule mp)
  show ?thesis
    by (rule conjI [OF d conjI [OF fr d0]])
qed

text \<open>
  A release build (\<open>NDEBUG\<close>) with a \<open>gpuMalloc\<close> that fails and leaves \<open>NULL\<close>: \<open>scratchpad()\<close> is
  called and returns, and the destructor frees nothing. And a build with \<open>assert\<close> compiled
  in where \<open>scratchpad()\<close> allocated the block at 8192 and the device switch of the
  destructor fails: the process ends at the assertion and \<open>gpuFree\<close> is never called.
\<close>

theorem destroy_frees_nothing_counterexample:
  "sd_run release_host_pass rt_nomem [Op_scratchpad] sd_one w_start =
     (Inr (), sd_one, w_start\<lparr>calls := [SetDevice 1, Malloc 1028]\<rparr>)
   \<and> GpuStreamDevice_destroy release_host_pass rt_nomem sd_one
       (w_start\<lparr>calls := [SetDevice 1, Malloc 1028]\<rparr>) =
     (Inr (), w_start\<lparr>calls := [SetDevice 1, Malloc 1028]\<rparr>)
   \<and> frees [SetDevice 1, Malloc 1028] = []
   \<and> sd_run gpu_host_pass rt_switch [Op_scratchpad] sd_one w_start =
     (Inr (), sd_one\<lparr>sd_scratch := 8192\<rparr>, w_start\<lparr>calls := [SetDevice 1, Malloc 1028]\<rparr>)
   \<and> GpuStreamDevice_destroy gpu_host_pass rt_switch (sd_one\<lparr>sd_scratch := 8192\<rparr>)
       (w_start\<lparr>calls := [SetDevice 1, Malloc 1028]\<rparr>) =
     (Inl AssertionFailed, w_start\<lparr>calls := [SetDevice 1, Malloc 1028, SetDevice 1]\<rparr>)
   \<and> frees [SetDevice 1, Malloc 1028, SetDevice 1] = []"
  by (simp add: GpuStreamDevice_destroy_def sd_step_def scratchpad_def allocate_def deallocate_def
      gpuSetDevice_def gpuMalloc_def gpuFree_def issue_def assert_aborts_def assert_compiled_def
      release_host_pass_def gpu_host_pass_def rt_nomem_def rt_switch_def rt_good_def sd_one_def
      w_start_def kGpuScratchSize_def sizeof_unsigned_int_def)

section \<open>The property cache in a run of one thread\<close>

declare query_props.simps [simp del]

lemma wait_initialized_set: "m_devicePropInitialized w \<Longrightarrow> wait_initialized w = Some w"
  by (subst wait_initialized.simps) simp

lemma wait_initialized_returns: "wait_initialized w = Some w1 \<Longrightarrow> m_devicePropInitialized w"
proof -
  assume ret: "wait_initialized w = Some w1"
  have step: "m_devicePropInitialized v"
    if ih: "\<And>x y. f x = Some y \<Longrightarrow> m_devicePropInitialized x"
      and eq: "(if m_devicePropInitialized v then Some v else f v) = Some y"
    for f :: "world \<Rightarrow> world option" and v y
  proof (cases "m_devicePropInitialized v")
    case True
    then show ?thesis .
  next
    case False
    with eq have "f v = Some y" by simp
    from ih [OF this] show ?thesis .
  qed
  show ?thesis
    by (rule wait_initialized.raw_induct [where P = "\<lambda>x y. m_devicePropInitialized x", OF step ret])
qed

lemma wait_initialized_unset: "\<not> m_devicePropInitialized w \<Longrightarrow> wait_initialized w = None"
  using wait_initialized_returns [of w] by (cases "wait_initialized w") auto

lemma initializeDeviceProp_ready:
  "m_devicePropInitialized w \<Longrightarrow> initializeDeviceProp cfg rt w = (Inr (), w)"
  by (simp add: initializeDeviceProp_def)

lemma initializeDeviceProp_claimed:
  "\<not> m_devicePropInitialized w \<Longrightarrow> \<not> first w \<Longrightarrow>
     fst (initializeDeviceProp cfg rt w) = Inl NeverReturns"
  by (simp add: initializeDeviceProp_def wait_initialized_unset)

lemma construct_ready:
  "m_devicePropInitialized w \<Longrightarrow> construct cfg rt d w = (Inr d, w)"
  by (simp add: construct_def initializeDeviceProp_ready)

lemma construct_returns:
  "construct cfg rt d w = (Inr d1, w1) \<Longrightarrow> d1 = d"
  by (auto simp: construct_def split: prod.splits sum.splits)

lemma initializeDeviceProp_good_start:
  "initializeDeviceProp cfg rt_good w_start =
     (Inr (), w_start\<lparr>calls := [GetDeviceCount, GetDeviceProperties 0, GetDeviceProperties 1],
        m_deviceProperties := [Some some_prop, Some some_prop],
        m_devicePropInitialized := True, first := False\<rparr>)"
  by (simp add: initializeDeviceProp_def query_props.simps gpuGetDeviceCount_def
      gpuGetDeviceProperties_def issue_def rt_good_def w_start_def numeral_2_eq_2)

lemma query_props_step:
  assumes "query_props cfg rt i n w = (Inr u, w1)" and "i < n"
  shows "\<exists>p ds. query_props cfg rt (Suc i) n
           (w\<lparr>calls := calls w @ [GetDeviceProperties (int i)],
              m_deviceProperties := (m_deviceProperties w)[i := Some p],
              cerr := cerr w @ ds\<rparr>) = (Inr u, w1)"
proof -
  obtain status p where q: "rtGetDeviceProperties rt (calls w) (int i) = (status, p)"
    by (cases "rtGetDeviceProperties rt (calls w) (int i)") auto
  show ?thesis
  proof (cases "status = gpuSuccess")
    case True
    with assms q have "query_props cfg rt (Suc i) n
           (w\<lparr>calls := calls w @ [GetDeviceProperties (int i)],
              m_deviceProperties := (m_deviceProperties w)[i := Some p],
              cerr := cerr w @ []\<rparr>) = (Inr u, w1)"
      by (subst (asm) query_props.simps) (simp add: gpuGetDeviceProperties_def issue_def)
    then show ?thesis by blast
  next
    case False
    with assms q have "query_props cfg rt (Suc i) n
           (w\<lparr>calls := calls w @ [GetDeviceProperties (int i)],
              m_deviceProperties := (m_deviceProperties w)[i := Some p],
              cerr := cerr w @ [FailedDeviceInit (int i) status]\<rparr>) = (Inr u, w1)"
      by (subst (asm) query_props.simps)
        (simp add: gpuGetDeviceProperties_def issue_def Let_def split: if_splits)
    then show ?thesis by blast
  qed
qed

lemma query_props_populates:
  assumes "query_props cfg rt i n w = (Inr u, w1)"
    and "length (m_deviceProperties w) = n"
    and "\<forall>j<i. m_deviceProperties w ! j \<noteq> None"
  shows "length (m_deviceProperties w1) = n \<and> (\<forall>j<n. m_deviceProperties w1 ! j \<noteq> None)
       \<and> m_devicePropInitialized w1 = m_devicePropInitialized w \<and> first w1 = first w
       \<and> stream_mem w1 = stream_mem w \<and> objects w1 = objects w"
  using assms
proof (induction "n - i" arbitrary: i w)
  case 0
  then have "\<not> i < n" by simp
  with "0.prems" show ?case by (simp add: query_props.simps)
next
  case (Suc k)
  then have lt: "i < n" by simp
  from query_props_step [OF Suc.prems(1) lt] obtain p ds where
    r: "query_props cfg rt (Suc i) n
           (w\<lparr>calls := calls w @ [GetDeviceProperties (int i)],
              m_deviceProperties := (m_deviceProperties w)[i := Some p],
              cerr := cerr w @ ds\<rparr>) = (Inr u, w1)"
    by blast
  have k: "k = n - Suc i" using Suc.hyps(2) by simp
  have len: "length (m_deviceProperties
           (w\<lparr>calls := calls w @ [GetDeviceProperties (int i)],
              m_deviceProperties := (m_deviceProperties w)[i := Some p],
              cerr := cerr w @ ds\<rparr>)) = n"
    using Suc.prems(2) by simp
  have filled: "\<forall>j<Suc i. m_deviceProperties
           (w\<lparr>calls := calls w @ [GetDeviceProperties (int i)],
              m_deviceProperties := (m_deviceProperties w)[i := Some p],
              cerr := cerr w @ ds\<rparr>) ! j \<noteq> None"
    using Suc.prems(2,3) lt by (auto simp: nth_list_update less_Suc_eq)
  from Suc.hyps(1) [OF k r len filled] show ?case by simp
qed

text \<open>
  One thread, first to call: when \<open>initializeDeviceProp\<close> returns, the flag is set and the
  array has one written record for each device the runtime counted.
\<close>

lemma initializeDeviceProp_populates:
  assumes "initializeDeviceProp cfg rt w = (Inr u, w1)"
  shows "m_devicePropInitialized w1"
    and "\<not> m_devicePropInitialized w \<Longrightarrow>
           length (m_deviceProperties w1) = nat (snd (rtGetDeviceCount rt (calls w)))
           \<and> (\<forall>j < length (m_deviceProperties w1). m_deviceProperties w1 ! j \<noteq> None)
           \<and> first w \<and> \<not> first w1"
proof -
  show "m_devicePropInitialized w1"
  proof (cases "m_devicePropInitialized w")
    case True
    with assms show ?thesis by (simp add: initializeDeviceProp_def)
  next
    case False
    with assms show ?thesis
      by (auto simp: initializeDeviceProp_def wait_initialized_unset Let_def
          split: if_splits prod.splits sum.splits)
  qed
next
  assume ni: "\<not> m_devicePropInitialized w"
  obtain status nd where c: "rtGetDeviceCount rt (calls w) = (status, nd)"
    by (cases "rtGetDeviceCount rt (calls w)") auto
  from assms ni have f: "first w"
    by (auto simp: initializeDeviceProp_def wait_initialized_unset split: if_splits)
  have "\<exists>ds w3. query_props cfg rt 0 (nat nd)
            (w\<lparr>first := False, calls := calls w @ [GetDeviceCount], cerr := cerr w @ ds,
               m_deviceProperties := replicate (nat nd) None\<rparr>) = (Inr (), w3)
          \<and> w1 = w3\<lparr>m_devicePropInitialized := True\<rparr>"
  proof (cases "status = gpuSuccess")
    case True
    with assms ni f c have "\<exists>w3. query_props cfg rt 0 (nat nd)
            (w\<lparr>first := False, calls := calls w @ [GetDeviceCount], cerr := cerr w @ [],
               m_deviceProperties := replicate (nat nd) None\<rparr>) = (Inr (), w3)
          \<and> w1 = w3\<lparr>m_devicePropInitialized := True\<rparr>"
      by (auto simp: initializeDeviceProp_def gpuGetDeviceCount_def issue_def Let_def
          split: if_splits prod.splits sum.splits)
    then show ?thesis by blast
  next
    case False
    with assms ni f c have "\<exists>w3. query_props cfg rt 0 (nat nd)
            (w\<lparr>first := False, calls := calls w @ [GetDeviceCount],
               cerr := cerr w @ [FailedDeviceCount status],
               m_deviceProperties := replicate (nat nd) None\<rparr>) = (Inr (), w3)
          \<and> w1 = w3\<lparr>m_devicePropInitialized := True\<rparr>"
      by (auto simp: initializeDeviceProp_def gpuGetDeviceCount_def issue_def Let_def
          split: if_splits prod.splits sum.splits)
    then show ?thesis by blast
  qed
  then obtain ds w3 where
    q: "query_props cfg rt 0 (nat nd)
            (w\<lparr>first := False, calls := calls w @ [GetDeviceCount], cerr := cerr w @ ds,
               m_deviceProperties := replicate (nat nd) None\<rparr>) = (Inr (), w3)" and
    w1: "w1 = w3\<lparr>m_devicePropInitialized := True\<rparr>"
    by blast
  from query_props_populates [OF q] have
    "length (m_deviceProperties w3) = nat nd \<and> (\<forall>j<nat nd. m_deviceProperties w3 ! j \<noteq> None)
       \<and> first w3 = False"
    by simp
  with w1 c f show "length (m_deviceProperties w1) = nat (snd (rtGetDeviceCount rt (calls w)))
           \<and> (\<forall>j < length (m_deviceProperties w1). m_deviceProperties w1 ! j \<noteq> None)
           \<and> first w \<and> \<not> first w1"
    by simp
qed

section \<open>The stream-supplied constructor\<close>

lemmas ctor_defs =
  GpuStreamDevice_stream_def GpuStreamDevice_stream_default_def GpuStreamDevice_current_def
  GpuStreamDevice_device_def gpuGetDevice_def gpuGetDeviceCount_def

lemma constructors_fresh:
  "GpuStreamDevice_current cfg rt w = (Inr d, w1) \<Longrightarrow> fresh d"
  "GpuStreamDevice_device cfg rt device w = (Inr d, w1) \<Longrightarrow> fresh d"
  "GpuStreamDevice_stream cfg rt strm device w = (Inr d, w1) \<Longrightarrow> fresh d"
  by (auto simp: ctor_defs fresh_def split: if_splits prod.splits dest!: construct_returns)

text \<open>
  C6, as the code has it. The constructor called with a stream and a device index
  \<open>0 \<le> device\<close> reads the device count and checks it with two \<open>assert\<close>s. Where \<open>assert\<close> is
  compiled in (\<open>NDEBUG\<close> not defined, and not the HIP device pass), a failed count query or
  an index that is not below the count ends the process right after \<open>gpuGetDeviceCount\<close>,
  and an index below a count that was read successfully goes on to
  \<open>initializeDeviceProp()\<close>. Where \<open>assert\<close> expands to nothing, the count is read and
  ignored, and the constructor goes on with the index as given. In every build an object
  that comes back is bound to the index the caller named, never to another device.
\<close>

theorem stream_ctor_validates_device:
  assumes nonneg: "0 \<le> device"
    and cnt: "rtGetDeviceCount rt (calls w) = (err, num_devices)"
  shows "(assert_compiled cfg \<and> (err \<noteq> gpuSuccess \<or> num_devices \<le> device) \<longrightarrow>
            GpuStreamDevice_stream cfg rt strm device w =
              (Inl AssertionFailed, w\<lparr>calls := calls w @ [GetDeviceCount]\<rparr>))
       \<and> (assert_compiled cfg \<and> err = gpuSuccess \<and> device < num_devices \<longrightarrow>
            GpuStreamDevice_stream cfg rt strm device w =
              construct cfg rt
                \<lparr>sd_stream = caller_stream strm, sd_device = device, sd_scratch = NULL,
                 sd_semaphore = NULL\<rparr> (w\<lparr>calls := calls w @ [GetDeviceCount]\<rparr>))
       \<and> (\<not> assert_compiled cfg \<longrightarrow>
            GpuStreamDevice_stream cfg rt strm device w =
              construct cfg rt
                \<lparr>sd_stream = caller_stream strm, sd_device = device, sd_scratch = NULL,
                 sd_semaphore = NULL\<rparr> (w\<lparr>calls := calls w @ [GetDeviceCount]\<rparr>))
       \<and> (m_devicePropInitialized w \<longrightarrow>
            construct cfg rt
              \<lparr>sd_stream = caller_stream strm, sd_device = device, sd_scratch = NULL,
               sd_semaphore = NULL\<rparr> (w\<lparr>calls := calls w @ [GetDeviceCount]\<rparr>) =
              (Inr \<lparr>sd_stream = caller_stream strm, sd_device = device, sd_scratch = NULL,
                    sd_semaphore = NULL\<rparr>, w\<lparr>calls := calls w @ [GetDeviceCount]\<rparr>))
       \<and> (\<forall>d w1. GpuStreamDevice_stream cfg rt strm device w = (Inr d, w1) \<longrightarrow>
            sd_device d = device \<and> sd_stream d = caller_stream strm
            \<and> (assert_compiled cfg \<longrightarrow> err = gpuSuccess \<and> device < num_devices))"
proof -
  have a: "assert_compiled cfg \<and> (err \<noteq> gpuSuccess \<or> num_devices \<le> device) \<longrightarrow>
            GpuStreamDevice_stream cfg rt strm device w =
              (Inl AssertionFailed, w\<lparr>calls := calls w @ [GetDeviceCount]\<rparr>)"
    using nonneg cnt
    by (auto simp: GpuStreamDevice_stream_def gpuGetDeviceCount_def assert_aborts_def issue_def)
  have b: "assert_compiled cfg \<and> err = gpuSuccess \<and> device < num_devices \<longrightarrow>
            GpuStreamDevice_stream cfg rt strm device w =
              construct cfg rt
                \<lparr>sd_stream = caller_stream strm, sd_device = device, sd_scratch = NULL,
                 sd_semaphore = NULL\<rparr> (w\<lparr>calls := calls w @ [GetDeviceCount]\<rparr>)"
    using nonneg cnt
    by (simp add: GpuStreamDevice_stream_def gpuGetDeviceCount_def assert_aborts_def issue_def)
  have c: "\<not> assert_compiled cfg \<longrightarrow>
            GpuStreamDevice_stream cfg rt strm device w =
              construct cfg rt
                \<lparr>sd_stream = caller_stream strm, sd_device = device, sd_scratch = NULL,
                 sd_semaphore = NULL\<rparr> (w\<lparr>calls := calls w @ [GetDeviceCount]\<rparr>)"
    using nonneg cnt
    by (simp add: GpuStreamDevice_stream_def gpuGetDeviceCount_def assert_aborts_def issue_def)
  have e: "m_devicePropInitialized w \<longrightarrow>
            construct cfg rt
              \<lparr>sd_stream = caller_stream strm, sd_device = device, sd_scratch = NULL,
               sd_semaphore = NULL\<rparr> (w\<lparr>calls := calls w @ [GetDeviceCount]\<rparr>) =
              (Inr \<lparr>sd_stream = caller_stream strm, sd_device = device, sd_scratch = NULL,
                    sd_semaphore = NULL\<rparr>, w\<lparr>calls := calls w @ [GetDeviceCount]\<rparr>)"
    by (simp add: construct_ready)
  have f: "\<forall>d w1. GpuStreamDevice_stream cfg rt strm device w = (Inr d, w1) \<longrightarrow>
            sd_device d = device \<and> sd_stream d = caller_stream strm
            \<and> (assert_compiled cfg \<longrightarrow> err = gpuSuccess \<and> device < num_devices)"
  proof (intro allI impI)
    fix d w1
    assume ret: "GpuStreamDevice_stream cfg rt strm device w = (Inr d, w1)"
    have live: "assert_compiled cfg \<longrightarrow> err = gpuSuccess \<and> device < num_devices"
    proof (rule ccontr)
      assume "\<not> (assert_compiled cfg \<longrightarrow> err = gpuSuccess \<and> device < num_devices)"
      then have "assert_compiled cfg \<and> (err \<noteq> gpuSuccess \<or> num_devices \<le> device)"
        by auto
      with a ret show False by simp
    qed
    have "GpuStreamDevice_stream cfg rt strm device w =
              construct cfg rt
                \<lparr>sd_stream = caller_stream strm, sd_device = device, sd_scratch = NULL,
                 sd_semaphore = NULL\<rparr> (w\<lparr>calls := calls w @ [GetDeviceCount]\<rparr>)"
      using b c live by blast
    with ret have "construct cfg rt
                \<lparr>sd_stream = caller_stream strm, sd_device = device, sd_scratch = NULL,
                 sd_semaphore = NULL\<rparr> (w\<lparr>calls := calls w @ [GetDeviceCount]\<rparr>) = (Inr d, w1)"
      by simp
    from construct_returns [OF this] live
    show "sd_device d = device \<and> sd_stream d = caller_stream strm
            \<and> (assert_compiled cfg \<longrightarrow> err = gpuSuccess \<and> device < num_devices)"
      by simp
  qed
  show ?thesis
    by (rule conjI [OF a conjI [OF b conjI [OF c conjI [OF e f]]]])
qed

theorem stream_ctor_validates_device_witness:
  "GpuStreamDevice_stream gpu_host_pass rt_good 16 5 w_ready =
     (Inl AssertionFailed, w_ready\<lparr>calls := [GetDeviceCount]\<rparr>)
   \<and> GpuStreamDevice_stream gpu_host_pass rt_good 16 2 w_ready =
     (Inl AssertionFailed, w_ready\<lparr>calls := [GetDeviceCount]\<rparr>)
   \<and> GpuStreamDevice_stream gpu_host_pass rt_good 16 1 w_ready =
     (Inr \<lparr>sd_stream = caller_stream 16, sd_device = 1, sd_scratch = NULL, sd_semaphore = NULL\<rparr>,
      w_ready\<lparr>calls := [GetDeviceCount]\<rparr>)"
proof -
  have live: "assert_compiled gpu_host_pass"
    by (simp add: assert_compiled_def gpu_host_pass_def)
  have c0: "calls w_ready = []" by (simp add: w_ready_def w_start_def)
  have c: "rtGetDeviceCount rt_good (calls w_ready) = (gpuSuccess, 2)"
    by (simp add: rt_good_def)
  have r: "m_devicePropInitialized w_ready"
    by (simp add: w_ready_def)
  have n5: "(0 :: int) \<le> 5" and n2: "(0 :: int) \<le> 2" and n1: "(0 :: int) \<le> 1"
    by simp_all
  note t5 = stream_ctor_validates_device [OF n5 c, of gpu_host_pass 16]
  note t2 = stream_ctor_validates_device [OF n2 c, of gpu_host_pass 16]
  note t1 = stream_ctor_validates_device [OF n1 c, of gpu_host_pass 16]
  have a5: "GpuStreamDevice_stream gpu_host_pass rt_good 16 5 w_ready =
     (Inl AssertionFailed, w_ready\<lparr>calls := [GetDeviceCount]\<rparr>)"
    using t5 [THEN conjunct1] live by (simp add: c0)
  have a2: "GpuStreamDevice_stream gpu_host_pass rt_good 16 2 w_ready =
     (Inl AssertionFailed, w_ready\<lparr>calls := [GetDeviceCount]\<rparr>)"
    using t2 [THEN conjunct1] live by (simp add: c0)
  have a1: "GpuStreamDevice_stream gpu_host_pass rt_good 16 1 w_ready =
     (Inr \<lparr>sd_stream = caller_stream 16, sd_device = 1, sd_scratch = NULL, sd_semaphore = NULL\<rparr>,
      w_ready\<lparr>calls := [GetDeviceCount]\<rparr>)"
    using t1 [THEN conjunct2, THEN conjunct1]
      t1 [THEN conjunct2, THEN conjunct2, THEN conjunct2, THEN conjunct1] live r
    by (simp add: c0)
  show ?thesis
    by (rule conjI [OF a5 conjI [OF a2 a1]])
qed

text \<open>
  A release build (\<open>-DNDEBUG\<close>) of the host pass, two devices, index 5: the standard \<open>assert\<close>
  expands to \<open>((void)0)\<close>, the count is read and not compared, and the constructor returns
  an object bound to device 5. The same call in the HIP device pass, where the file
  itself empties \<open>assert\<close>, returns the same object.
\<close>

theorem stream_ctor_release_build_counterexample:
  "GpuStreamDevice_stream release_host_pass rt_good 16 5 w_ready =
     (Inr \<lparr>sd_stream = caller_stream 16, sd_device = 5, sd_scratch = NULL, sd_semaphore = NULL\<rparr>,
      w_ready\<lparr>calls := [GetDeviceCount]\<rparr>)
   \<and> rtGetDeviceCount rt_good (calls w_ready) = (gpuSuccess, 2)
   \<and> GpuStreamDevice_stream hip_device_pass rt_good 16 5 w_ready =
     (Inr \<lparr>sd_stream = caller_stream 16, sd_device = 5, sd_scratch = NULL, sd_semaphore = NULL\<rparr>,
      w_ready\<lparr>calls := [GetDeviceCount]\<rparr>)"
  by (simp add: GpuStreamDevice_stream_def gpuGetDeviceCount_def assert_aborts_def
      assert_compiled_def construct_def initializeDeviceProp_def issue_def release_host_pass_def
      hip_device_pass_def rt_good_def w_ready_def w_start_def)

text \<open>
  C9. Every negative index is the default \<open>-1\<close>: the constructor asks the runtime for the
  current device, binds the object to what the runtime reports, and goes straight on to
  \<open>initializeDeviceProp()\<close>. It does not read the device count and asserts nothing about
  the index: once the property cache is filled it returns the object after the single
  runtime call \<open>gpuGetDevice\<close>, whatever the device count is.
\<close>

theorem negative_index_binds_current_device:
  assumes neg: "device < 0"
  shows "GpuStreamDevice_stream cfg rt strm device w = GpuStreamDevice_stream_default cfg rt strm w
       \<and> GpuStreamDevice_stream cfg rt strm device w =
           construct cfg rt
             \<lparr>sd_stream = caller_stream strm, sd_device = snd (rtGetDevice rt (calls w)),
              sd_scratch = NULL, sd_semaphore = NULL\<rparr> (issue GetDevice w)
       \<and> (\<forall>d w1. GpuStreamDevice_stream cfg rt strm device w = (Inr d, w1) \<longrightarrow>
             sd_device d = snd (rtGetDevice rt (calls w)) \<and> sd_stream d = caller_stream strm)
       \<and> (m_devicePropInitialized w \<longrightarrow>
             GpuStreamDevice_stream cfg rt strm device w =
               (Inr \<lparr>sd_stream = caller_stream strm, sd_device = snd (rtGetDevice rt (calls w)),
                     sd_scratch = NULL, sd_semaphore = NULL\<rparr>, issue GetDevice w))"
proof -
  have eq: "GpuStreamDevice_stream cfg rt strm device w =
           construct cfg rt
             \<lparr>sd_stream = caller_stream strm, sd_device = snd (rtGetDevice rt (calls w)),
              sd_scratch = NULL, sd_semaphore = NULL\<rparr> (issue GetDevice w)"
    using neg
    by (cases "rtGetDevice rt (calls w)") (simp add: GpuStreamDevice_stream_def gpuGetDevice_def)
  have dflt: "GpuStreamDevice_stream cfg rt strm device w = GpuStreamDevice_stream_default cfg rt strm w"
    using neg
    by (simp add: GpuStreamDevice_stream_def GpuStreamDevice_stream_default_def)
  have bound: "\<forall>d w1. GpuStreamDevice_stream cfg rt strm device w = (Inr d, w1) \<longrightarrow>
             sd_device d = snd (rtGetDevice rt (calls w)) \<and> sd_stream d = caller_stream strm"
    unfolding eq by (auto dest!: construct_returns)
  have ready: "m_devicePropInitialized w \<longrightarrow>
             GpuStreamDevice_stream cfg rt strm device w =
               (Inr \<lparr>sd_stream = caller_stream strm, sd_device = snd (rtGetDevice rt (calls w)),
                     sd_scratch = NULL, sd_semaphore = NULL\<rparr>, issue GetDevice w)"
    unfolding eq by (simp add: construct_ready issue_simps)
  from dflt eq bound ready show ?thesis by blast
qed

theorem negative_index_binds_current_device_witness:
  "GpuStreamDevice_stream gpu_host_pass rt_good 16 (- 7) w_start =
     (Inr \<lparr>sd_stream = caller_stream 16, sd_device = 1, sd_scratch = NULL, sd_semaphore = NULL\<rparr>,
      w_start\<lparr>calls := [GetDevice, GetDeviceCount, GetDeviceProperties 0, GetDeviceProperties 1],
        m_deviceProperties := [Some some_prop, Some some_prop],
        m_devicePropInitialized := True, first := False\<rparr>)
   \<and> GpuStreamDevice_stream gpu_host_pass rt_good 16 (- 7) w_start =
       GpuStreamDevice_stream_default gpu_host_pass rt_good 16 w_start"
proof -
  have neg: "(- 7 :: int) < 0" by simp
  have c: "construct gpu_host_pass rt_good
             \<lparr>sd_stream = caller_stream 16, sd_device = snd (rtGetDevice rt_good (calls w_start)),
              sd_scratch = NULL, sd_semaphore = NULL\<rparr> (issue GetDevice w_start) =
     (Inr \<lparr>sd_stream = caller_stream 16, sd_device = 1, sd_scratch = NULL, sd_semaphore = NULL\<rparr>,
      w_start\<lparr>calls := [GetDevice, GetDeviceCount, GetDeviceProperties 0, GetDeviceProperties 1],
        m_deviceProperties := [Some some_prop, Some some_prop],
        m_devicePropInitialized := True, first := False\<rparr>)"
    by (simp add: construct_def initializeDeviceProp_def query_props.simps gpuGetDeviceCount_def
        gpuGetDeviceProperties_def issue_def rt_good_def w_start_def numeral_2_eq_2)
  from negative_index_binds_current_device [OF neg, of gpu_host_pass rt_good 16 w_start]
  have a: "GpuStreamDevice_stream gpu_host_pass rt_good 16 (- 7) w_start =
       GpuStreamDevice_stream_default gpu_host_pass rt_good 16 w_start"
    and b: "GpuStreamDevice_stream gpu_host_pass rt_good 16 (- 7) w_start =
       construct gpu_host_pass rt_good
             \<lparr>sd_stream = caller_stream 16, sd_device = snd (rtGetDevice rt_good (calls w_start)),
              sd_scratch = NULL, sd_semaphore = NULL\<rparr> (issue GetDevice w_start)"
    by blast+
  show ?thesis
    by (rule conjI [OF trans [OF b c] a])
qed

section \<open>The device facade\<close>

lemmas gpu_device_defs =
  GpuDevice_stream_def GpuDevice_allocate_def GpuDevice_deallocate_def GpuDevice_scratchpad_def
  GpuDevice_semaphore_def copy_async_def memcpy_def memcpyHostToDevice_def
  memcpyDeviceToHost_def memset_def synchronize_def ok_def LAUNCH_GPU_KERNEL_def
  setGpuSharedMemConfig_def gpuMemcpyAsync_def gpuStreamQuery_def gpuStreamSynchronize_def
  gpuGetLastError_def gpuDeviceSetSharedMemConfig_def eigen_assert_aborts_def

lemma synchronize_frame:
  "synchronize cfg rt gd w = (r, w1) \<Longrightarrow> objects w1 = objects w \<and> stream_mem w1 = stream_mem w"
  by (auto simp: synchronize_def GpuDevice_stream_def gpuStreamSynchronize_def issue_def Let_def
      split: if_splits option.splits)

text \<open>
  C5, as the code has it. Compiled without \<open>EIGEN_GPUCC\<close>, \<open>ok()\<close> is \<open>return false;\<close>: it
  returns false and issues no runtime call. Compiled with \<open>EIGEN_GPUCC\<close>, \<open>ok()\<close> issues one
  \<open>gpuStreamQuery\<close> on the stream of the bound interface and nothing else, and returns true
  exactly when the runtime answers \<open>gpuSuccess\<close> or \<open>gpuErrorNotReady\<close>. After a
  \<open>synchronize()\<close> that has returned, and so after one whose \<open>gpuStreamSynchronize\<close> succeeded,
  \<open>ok()\<close> is the same poll: it returns true exactly when the runtime answers that poll with
  one of the two statuses.
\<close>

theorem ok_polls_stream:
  "(\<not> EIGEN_GPUCC cfg \<longrightarrow> ok cfg rt gd w = (Inr False, w))
   \<and> (EIGEN_GPUCC cfg \<and> objects w (gd_stream gd) = None \<longrightarrow> ok cfg rt gd w = (Inl BadPointer, w))
   \<and> (EIGEN_GPUCC cfg \<and> objects w (gd_stream gd) = Some d \<longrightarrow>
        ok cfg rt gd w =
          (Inr (rtStreamQuery rt (calls w) (stream d w) = gpuSuccess
                \<or> rtStreamQuery rt (calls w) (stream d w) = gpuErrorNotReady),
           w\<lparr>calls := calls w @ [StreamQuery (stream d w)]\<rparr>))
   \<and> (EIGEN_GPUCC cfg \<and> \<not> EIGEN_GPU_COMPILE_PHASE cfg \<and> objects w (gd_stream gd) = Some d
        \<and> rtStreamSynchronize rt (calls w) (stream d w) = gpuSuccess \<longrightarrow>
        synchronize cfg rt gd w = (Inr (), w\<lparr>calls := calls w @ [StreamSynchronize (stream d w)]\<rparr>)
        \<and> ok cfg rt gd (w\<lparr>calls := calls w @ [StreamSynchronize (stream d w)]\<rparr>) =
            (Inr (rtStreamQuery rt (calls w @ [StreamSynchronize (stream d w)]) (stream d w) = gpuSuccess
                  \<or> rtStreamQuery rt (calls w @ [StreamSynchronize (stream d w)]) (stream d w) =
                      gpuErrorNotReady),
             w\<lparr>calls := calls w @ [StreamSynchronize (stream d w), StreamQuery (stream d w)]\<rparr>))
   \<and> (EIGEN_GPUCC cfg \<and> objects w (gd_stream gd) = Some d \<longrightarrow>
        (\<forall>w1. synchronize cfg rt gd w = (Inr (), w1) \<longrightarrow>
           ok cfg rt gd w1 =
             (Inr (rtStreamQuery rt (calls w1) (stream d w) = gpuSuccess
                   \<or> rtStreamQuery rt (calls w1) (stream d w) = gpuErrorNotReady),
              w1\<lparr>calls := calls w1 @ [StreamQuery (stream d w)]\<rparr>)))"
proof -
  have a: "\<not> EIGEN_GPUCC cfg \<longrightarrow> ok cfg rt gd w = (Inr False, w)"
    by (simp add: ok_def)
  have b: "EIGEN_GPUCC cfg \<and> objects w (gd_stream gd) = None \<longrightarrow> ok cfg rt gd w = (Inl BadPointer, w)"
    by (simp add: ok_def GpuDevice_stream_def)
  have c: "EIGEN_GPUCC cfg \<and> objects w (gd_stream gd) = Some d \<longrightarrow>
        ok cfg rt gd w =
          (Inr (rtStreamQuery rt (calls w) (stream d w) = gpuSuccess
                \<or> rtStreamQuery rt (calls w) (stream d w) = gpuErrorNotReady),
           w\<lparr>calls := calls w @ [StreamQuery (stream d w)]\<rparr>)"
    by (simp add: ok_def GpuDevice_stream_def gpuStreamQuery_def issue_def)
  have s: "stream d (w\<lparr>calls := cs\<rparr>) = stream d w" for cs
    by (simp add: stream_def deref_stream_def split: stream_ptr.splits)
  have e: "EIGEN_GPUCC cfg \<and> \<not> EIGEN_GPU_COMPILE_PHASE cfg \<and> objects w (gd_stream gd) = Some d
        \<and> rtStreamSynchronize rt (calls w) (stream d w) = gpuSuccess \<longrightarrow>
        synchronize cfg rt gd w = (Inr (), w\<lparr>calls := calls w @ [StreamSynchronize (stream d w)]\<rparr>)
        \<and> ok cfg rt gd (w\<lparr>calls := calls w @ [StreamSynchronize (stream d w)]\<rparr>) =
            (Inr (rtStreamQuery rt (calls w @ [StreamSynchronize (stream d w)]) (stream d w) = gpuSuccess
                  \<or> rtStreamQuery rt (calls w @ [StreamSynchronize (stream d w)]) (stream d w) =
                      gpuErrorNotReady),
             w\<lparr>calls := calls w @ [StreamSynchronize (stream d w), StreamQuery (stream d w)]\<rparr>)"
    by (simp add: synchronize_def ok_def GpuDevice_stream_def gpuStreamSynchronize_def
        gpuStreamQuery_def issue_def s)
  have f: "EIGEN_GPUCC cfg \<and> objects w (gd_stream gd) = Some d \<longrightarrow>
        (\<forall>w1. synchronize cfg rt gd w = (Inr (), w1) \<longrightarrow>
           ok cfg rt gd w1 =
             (Inr (rtStreamQuery rt (calls w1) (stream d w) = gpuSuccess
                   \<or> rtStreamQuery rt (calls w1) (stream d w) = gpuErrorNotReady),
              w1\<lparr>calls := calls w1 @ [StreamQuery (stream d w)]\<rparr>))"
  proof (intro impI allI)
    fix w1
    assume h: "EIGEN_GPUCC cfg \<and> objects w (gd_stream gd) = Some d"
      and ret: "synchronize cfg rt gd w = (Inr (), w1)"
    from synchronize_frame [OF ret] have o: "objects w1 = objects w" and m: "stream_mem w1 = stream_mem w"
      by simp_all
    have "stream d w1 = stream d w"
      using deref_stream_cong [OF m] by (simp add: stream_def)
    with h o show "ok cfg rt gd w1 =
             (Inr (rtStreamQuery rt (calls w1) (stream d w) = gpuSuccess
                   \<or> rtStreamQuery rt (calls w1) (stream d w) = gpuErrorNotReady),
              w1\<lparr>calls := calls w1 @ [StreamQuery (stream d w)]\<rparr>)"
      by (simp add: ok_def GpuDevice_stream_def gpuStreamQuery_def issue_def)
  qed
  show ?thesis
    by (rule conjI [OF a conjI [OF b conjI [OF c conjI [OF e f]]]])
qed

theorem ok_polls_stream_witness:
  "ok gpu_host_pass rt_good gd_one w_bound =
     (Inr True, w_bound\<lparr>calls := [StreamQuery 0]\<rparr>)
   \<and> ok gpu_host_pass rt_bad gd_one w_bound =
     (Inr False, w_bound\<lparr>calls := [StreamQuery 0]\<rparr>)
   \<and> synchronize gpu_host_pass rt_good gd_one w_bound =
     (Inr (), w_bound\<lparr>calls := [StreamSynchronize 0]\<rparr>)
   \<and> ok gpu_host_pass rt_good gd_one (w_bound\<lparr>calls := [StreamSynchronize 0]\<rparr>) =
     (Inr True, w_bound\<lparr>calls := [StreamSynchronize 0, StreamQuery 0]\<rparr>)
   \<and> ok plain_host rt_good gd_one w_bound = (Inr False, w_bound)"
proof -
  have g: "EIGEN_GPUCC gpu_host_pass" "\<not> EIGEN_GPU_COMPILE_PHASE gpu_host_pass"
    by (simp_all add: gpu_host_pass_def)
  have ng: "\<not> EIGEN_GPUCC plain_host" by (simp add: plain_host_def)
  have b: "objects w_bound (gd_stream gd_one) = Some sd_one"
    by (simp add: w_bound_def gd_one_def)
  have s: "stream sd_one w_bound = 0"
    by (simp add: stream_def deref_stream_def sd_one_def gpuStreamDefault_def)
  have c0: "calls w_bound = []" by (simp add: w_bound_def w_start_def)
  have sy: "rtStreamSynchronize rt_good (calls w_bound) (stream sd_one w_bound) = gpuSuccess"
    by (simp add: rt_good_def)
  note good = ok_polls_stream [of gpu_host_pass rt_good gd_one w_bound sd_one]
  note bad = ok_polls_stream [of gpu_host_pass rt_bad gd_one w_bound sd_one]
  note plain = ok_polls_stream [of plain_host rt_good gd_one w_bound sd_one]
  have a1: "ok gpu_host_pass rt_good gd_one w_bound = (Inr True, w_bound\<lparr>calls := [StreamQuery 0]\<rparr>)"
    using good [THEN conjunct2, THEN conjunct2, THEN conjunct1] g(1) b
    by (simp add: s c0 rt_good_def)
  have a2: "ok gpu_host_pass rt_bad gd_one w_bound = (Inr False, w_bound\<lparr>calls := [StreamQuery 0]\<rparr>)"
    using bad [THEN conjunct2, THEN conjunct2, THEN conjunct1] g(1) b
    by (simp add: s c0 rt_bad_def)
  have a34: "synchronize gpu_host_pass rt_good gd_one w_bound =
     (Inr (), w_bound\<lparr>calls := [StreamSynchronize 0]\<rparr>)
   \<and> ok gpu_host_pass rt_good gd_one (w_bound\<lparr>calls := [StreamSynchronize 0]\<rparr>) =
     (Inr True, w_bound\<lparr>calls := [StreamSynchronize 0, StreamQuery 0]\<rparr>)"
    using good [THEN conjunct2, THEN conjunct2, THEN conjunct2, THEN conjunct1] g b sy
    by (simp add: s c0 rt_good_def)
  have a5: "ok plain_host rt_good gd_one w_bound = (Inr False, w_bound)"
    using plain [THEN conjunct1] ng by (rule mp)
  show ?thesis
    by (rule conjI [OF a1 conjI [OF a2 conjI [OF conjunct1 [OF a34] conjI [OF conjunct2 [OF a34] a5]]]])
qed

text \<open>
  Compiled by a plain host compiler (\<open>EIGEN_GPUCC\<close> not defined) \<open>ok()\<close> returns false and polls
  nothing, although the runtime would report success. And compiled by a GPU compiler, with
  a runtime that lets \<open>gpuStreamSynchronize\<close> succeed and answers the poll after it with an
  error: \<open>synchronize()\<close> returns without a message, and \<open>ok()\<close> right after it returns false.
\<close>

theorem ok_false_counterexample:
  "ok plain_host rt_good gd_one w_bound = (Inr False, w_bound)
   \<and> objects w_bound (gd_stream gd_one) = Some sd_one
   \<and> rtStreamQuery rt_good (calls w_bound) (stream sd_one w_bound) = gpuSuccess
   \<and> synchronize gpu_host_pass rt_sticky gd_one w_bound =
       (Inr (), w_bound\<lparr>calls := [StreamSynchronize 0]\<rparr>)
   \<and> ok gpu_host_pass rt_sticky gd_one (w_bound\<lparr>calls := [StreamSynchronize 0]\<rparr>) =
       (Inr False, w_bound\<lparr>calls := [StreamSynchronize 0, StreamQuery 0]\<rparr>)"
  by (simp add: ok_def synchronize_def GpuDevice_stream_def gpuStreamSynchronize_def
      gpuStreamQuery_def issue_def stream_def deref_stream_def gpuStreamDefault_def
      plain_host_def gpu_host_pass_def rt_sticky_def rt_good_def w_bound_def w_start_def
      gd_one_def sd_one_def)

lemma gd_step_same: "gd_step cfg rt c gd w = (r, gd1, w1) \<Longrightarrow> gd1 = gd"
  by (cases c) (auto simp: gd_step_def split: prod.splits)

lemma gd_run_same: "gd_run cfg rt cs gd w = (r, gd1, w1) \<Longrightarrow> gd1 = gd"
proof (induction cs arbitrary: gd w)
  case Nil
  then show ?case by simp
next
  case (Cons c cs)
  obtain r' gd' w' where st: "gd_step cfg rt c gd w = (r', gd', w')"
    by (cases "gd_step cfg rt c gd w") auto
  have k: "gd' = gd" using gd_step_same [OF st] .
  show ?case
  proof (cases r')
    case (Inl e)
    with Cons.prems st k show ?thesis by simp
  next
    case (Inr u)
    with Cons.prems st have "gd_run cfg rt cs gd' w' = (r, gd1, w1)" by simp
    from Cons.IH [OF this] k show ?thesis by simp
  qed
qed

text \<open>
  C7. Both constructors end the process at \<open>eigen_assert\<close> for a null interface pointer. For
  any other pointer the one-argument constructor gives \<open>maxBlocks() = INT_MAX\<close> =
  2147483647 and the two-argument one gives \<open>maxBlocks() = num_blocks\<close>; no sequence of
  calls of the other member functions or of the launch macro changes what \<open>maxBlocks()\<close>
  returns.
\<close>

theorem maxBlocks_is_construction_budget:
  "GpuDevice_new NULL = Inl AssertionFailed
   \<and> GpuDevice_new_blocks NULL num_blocks = Inl AssertionFailed
   \<and> (strm \<noteq> NULL \<longrightarrow>
        map_sum id maxBlocks (GpuDevice_new_blocks strm num_blocks) = Inr num_blocks
        \<and> map_sum id maxBlocks (GpuDevice_new strm) = Inr INT_MAX)
   \<and> INT_MAX = 2147483647
   \<and> (\<forall>cs w r gd1 w1. gd_run cfg rt cs gd w = (r, gd1, w1) \<longrightarrow> maxBlocks gd1 = maxBlocks gd)"
proof -
  have a: "GpuDevice_new NULL = Inl AssertionFailed
      \<and> GpuDevice_new_blocks NULL num_blocks = Inl AssertionFailed"
    by (simp add: GpuDevice_new_def GpuDevice_new_blocks_def eigen_assert_aborts_def)
  have b: "strm \<noteq> NULL \<longrightarrow>
        map_sum id maxBlocks (GpuDevice_new_blocks strm num_blocks) = Inr num_blocks
        \<and> map_sum id maxBlocks (GpuDevice_new strm) = Inr INT_MAX"
    by (simp add: GpuDevice_new_def GpuDevice_new_blocks_def eigen_assert_aborts_def maxBlocks_def)
  have c: "\<forall>cs w r gd1 w1. gd_run cfg rt cs gd w = (r, gd1, w1) \<longrightarrow> maxBlocks gd1 = maxBlocks gd"
    by (auto dest: gd_run_same)
  have d: "INT_MAX = 2147483647" by (simp add: INT_MAX_def)
  from a b c d show ?thesis by blast
qed

theorem maxBlocks_is_construction_budget_witness:
  "map_sum id maxBlocks (GpuDevice_new_blocks 64 12) = Inr 12
   \<and> map_sum id maxBlocks (GpuDevice_new 64) = Inr 2147483647
   \<and> gd_run gpu_host_pass rt_good [G_scratchpad, G_memset 8192 0 16, G_synchronize, G_ok] gd_one w_bound =
       (Inr (), gd_one,
        w_bound\<lparr>calls := [SetDevice 1, Malloc 1028, MemsetAsync 8192 0 16 0, StreamSynchronize 0,
                          StreamQuery 0],
          objects := (objects w_bound)(64 := Some (sd_one\<lparr>sd_scratch := 8192\<rparr>))\<rparr>)
   \<and> maxBlocks gd_one = 2147483647"
proof -
  have n: "(64 :: nat) \<noteq> NULL" by simp
  have r: "gd_run gpu_host_pass rt_good [G_scratchpad, G_memset 8192 0 16, G_synchronize, G_ok] gd_one w_bound =
       (Inr (), gd_one,
        w_bound\<lparr>calls := [SetDevice 1, Malloc 1028, MemsetAsync 8192 0 16 0, StreamSynchronize 0,
                          StreamQuery 0],
          objects := (objects w_bound)(64 := Some (sd_one\<lparr>sd_scratch := 8192\<rparr>))\<rparr>)"
    by (simp add: gd_step_def gpu_device_defs stream_device_defs fixture_defs)
  have m: "maxBlocks gd_one = 2147483647"
    by (simp add: maxBlocks_def gd_one_def INT_MAX_def)
  from maxBlocks_is_construction_budget [of 12 64 gpu_host_pass rt_good gd_one] n r m
  show ?thesis by simp
qed

text \<open>
  \<open>sharedMemPerBlock()\<close> narrows the \<open>size_t\<close> member to \<open>int\<close>: a value below \<open>2^31\<close> comes back
  as it is, and \<open>2^32 + 5\<close> comes back as 5.
\<close>

lemma sharedMemPerBlock_narrows:
  "int_of_size_t 49152 = 49152 \<and> int_of_size_t (4294967296 + 5) = 5
   \<and> (n < 2147483648 \<longrightarrow> int_of_size_t n = int n)
   \<and> (objects w (gd_stream gd) = Some d \<and> deviceProperties d w = Inr p \<longrightarrow>
        GpuDevice_sharedMemPerBlock gd w = Inr (int_of_size_t (sharedMemPerBlock p)))"
  by (simp add: int_of_size_t_def GpuDevice_sharedMemPerBlock_def GpuDevice_deviceProperties_def)

text \<open>
  C8. \<open>numThreads()\<close> is 32, \<open>firstLevelCacheSize()\<close> is 48 * 1024 = 49152 and
  \<open>lastLevelCacheSize()\<close> is \<open>firstLevelCacheSize()\<close>, for every device: the three functions
  read neither the bound interface nor the property cache, so two devices bound to
  different hardware get the same values.
\<close>

theorem fixed_platform_constants:
  "numThreads gd = 32
   \<and> firstLevelCacheSize gd = 48 * 1024
   \<and> firstLevelCacheSize gd = 49152
   \<and> lastLevelCacheSize gd = firstLevelCacheSize gd
   \<and> numThreads gd = numThreads gd2
   \<and> firstLevelCacheSize gd = firstLevelCacheSize gd2
   \<and> lastLevelCacheSize gd = lastLevelCacheSize gd2"
  by (simp add: numThreads_def firstLevelCacheSize_def lastLevelCacheSize_def)

section \<open>The HIP device pass\<close>

text \<open>
  C10. With \<open>EIGEN_HIP_DEVICE_COMPILE\<close> defined \<open>assert(COND)\<close> expands to nothing, so no
  \<open>assert\<close> ends the process, whatever its condition, and its argument is not evaluated.
  \<open>allocate\<close> returns whatever the runtime left in \<open>result\<close>, also after a failed device
  switch, a failed \<open>gpuMalloc\<close> or a null result; \<open>deallocate\<close> goes on to \<open>gpuFree\<close> and
  returns, also for a null buffer and after a failed switch or free; the two host copies
  return after a failed runtime call; the launch macro returns after the launch and does
  not ask for the last error, because that call is the argument of the \<open>assert\<close>. \<open>memcpy\<close>
  and \<open>memset\<close> carry their \<open>assert\<close> only where \<open>EIGEN_GPU_COMPILE_PHASE\<close> is not defined, and
  there they return after a failed runtime call; where it is defined their body is an
  \<open>eigen_assert(false)\<close>, another macro, and no runtime call is made. None of these
  functions writes to \<open>std::cerr\<close>.
\<close>

theorem hip_device_compile_skips_asserts:
  assumes hip: "EIGEN_HIP_DEVICE_COMPILE cfg"
  shows "assert_compiled cfg = False \<and> assert_aborts cfg c = False
       \<and> allocate cfg rt d n w =
           (Inr (snd (rtMalloc rt (calls w @ [SetDevice (sd_device d)]) n)),
            w\<lparr>calls := calls w @ [SetDevice (sd_device d), Malloc n]\<rparr>)
       \<and> deallocate cfg rt d buffer w =
           (Inr (), w\<lparr>calls := calls w @ [SetDevice (sd_device d), Free buffer]\<rparr>)
       \<and> (objects w (gd_stream gd) = Some d \<longrightarrow>
            memcpyHostToDevice cfg rt gd dst src n w =
              (Inr (), w\<lparr>calls := calls w @ [MemcpyAsync dst src n gpuMemcpyHostToDevice (stream d w)]\<rparr>)
            \<and> memcpyDeviceToHost cfg rt gd dst src n w =
              (Inr (), w\<lparr>calls := calls w @ [MemcpyAsync dst src n gpuMemcpyDeviceToHost (stream d w)]\<rparr>)
            \<and> LAUNCH_GPU_KERNEL cfg rt kern gridsize blocksize sharedmem gd args w =
              (Inr (), w\<lparr>calls := calls w
                         @ [LaunchKernel kern gridsize blocksize sharedmem (stream d w) args]\<rparr>)
            \<and> memcpy cfg rt gd dst src n w =
                (if EIGEN_GPU_COMPILE_PHASE cfg then (Inl AssertionFailed, w)
                 else (Inr (), w\<lparr>calls := calls w
                         @ [MemcpyAsync dst src n gpuMemcpyDeviceToDevice (stream d w)]\<rparr>))
            \<and> memset cfg rt gd dst v n w =
                (if EIGEN_GPU_COMPILE_PHASE cfg then (Inl AssertionFailed, w)
                 else (Inr (), w\<lparr>calls := calls w @ [MemsetAsync dst v n (stream d w)]\<rparr>)))
       \<and> cerr (snd (allocate cfg rt d n w)) = cerr w
       \<and> cerr (snd (deallocate cfg rt d buffer w)) = cerr w
       \<and> cerr (snd (memcpyHostToDevice cfg rt gd dst src n w)) = cerr w
       \<and> cerr (snd (memcpyDeviceToHost cfg rt gd dst src n w)) = cerr w
       \<and> cerr (snd (memcpy cfg rt gd dst src n w)) = cerr w
       \<and> cerr (snd (memset cfg rt gd dst v n w)) = cerr w
       \<and> cerr (snd (LAUNCH_GPU_KERNEL cfg rt kern gridsize blocksize sharedmem gd args w)) = cerr w"
proof -
  have nc: "assert_compiled cfg = False"
    using hip by (simp add: assert_compiled_def)
  have a: "assert_aborts cfg b = False" for b
    using hip by (simp add: assert_aborts_def assert_compiled_def)
  have al: "allocate cfg rt d n w =
           (Inr (snd (rtMalloc rt (calls w @ [SetDevice (sd_device d)]) n)),
            w\<lparr>calls := calls w @ [SetDevice (sd_device d), Malloc n]\<rparr>)"
    by (simp add: allocate_def gpuSetDevice_def gpuMalloc_def a issue_def split: prod.splits)
  have de: "deallocate cfg rt d buffer w =
           (Inr (), w\<lparr>calls := calls w @ [SetDevice (sd_device d), Free buffer]\<rparr>)"
    by (simp add: deallocate_def gpuSetDevice_def gpuFree_def a issue_def)
  have cp: "objects w (gd_stream gd) = Some d \<Longrightarrow>
            copy_async cfg rt gd dst src n k w =
              (Inr (), w\<lparr>calls := calls w @ [MemcpyAsync dst src n k (stream d w)]\<rparr>)"
    for k
    by (simp add: copy_async_def GpuDevice_stream_def gpuMemcpyAsync_def a issue_def)
  have la: "objects w (gd_stream gd) = Some d \<Longrightarrow>
            LAUNCH_GPU_KERNEL cfg rt kern gridsize blocksize sharedmem gd args w =
              (Inr (), w\<lparr>calls := calls w
                         @ [LaunchKernel kern gridsize blocksize sharedmem (stream d w) args]\<rparr>)"
    by (simp add: LAUNCH_GPU_KERNEL_def GpuDevice_stream_def nc issue_def)
  have mc: "objects w (gd_stream gd) = Some d \<Longrightarrow>
            memcpy cfg rt gd dst src n w =
                (if EIGEN_GPU_COMPILE_PHASE cfg then (Inl AssertionFailed, w)
                 else (Inr (), w\<lparr>calls := calls w
                         @ [MemcpyAsync dst src n gpuMemcpyDeviceToDevice (stream d w)]\<rparr>))"
    using cp [of gpuMemcpyDeviceToDevice] by (simp add: memcpy_def eigen_assert_aborts_def)
  have ms: "objects w (gd_stream gd) = Some d \<Longrightarrow>
            memset cfg rt gd dst v n w =
                (if EIGEN_GPU_COMPILE_PHASE cfg then (Inl AssertionFailed, w)
                 else (Inr (), w\<lparr>calls := calls w @ [MemsetAsync dst v n (stream d w)]\<rparr>))"
    by (simp add: memset_def GpuDevice_stream_def gpuMemsetAsync_def a issue_def
        eigen_assert_aborts_def)
  have gd_part: "objects w (gd_stream gd) = Some d \<longrightarrow>
            memcpyHostToDevice cfg rt gd dst src n w =
              (Inr (), w\<lparr>calls := calls w @ [MemcpyAsync dst src n gpuMemcpyHostToDevice (stream d w)]\<rparr>)
            \<and> memcpyDeviceToHost cfg rt gd dst src n w =
              (Inr (), w\<lparr>calls := calls w @ [MemcpyAsync dst src n gpuMemcpyDeviceToHost (stream d w)]\<rparr>)
            \<and> LAUNCH_GPU_KERNEL cfg rt kern gridsize blocksize sharedmem gd args w =
              (Inr (), w\<lparr>calls := calls w
                         @ [LaunchKernel kern gridsize blocksize sharedmem (stream d w) args]\<rparr>)
            \<and> memcpy cfg rt gd dst src n w =
                (if EIGEN_GPU_COMPILE_PHASE cfg then (Inl AssertionFailed, w)
                 else (Inr (), w\<lparr>calls := calls w
                         @ [MemcpyAsync dst src n gpuMemcpyDeviceToDevice (stream d w)]\<rparr>))
            \<and> memset cfg rt gd dst v n w =
                (if EIGEN_GPU_COMPILE_PHASE cfg then (Inl AssertionFailed, w)
                 else (Inr (), w\<lparr>calls := calls w @ [MemsetAsync dst v n (stream d w)]\<rparr>))"
  proof
    assume b: "objects w (gd_stream gd) = Some d"
    from cp [OF b] la [OF b] mc [OF b] ms [OF b]
    show "memcpyHostToDevice cfg rt gd dst src n w =
              (Inr (), w\<lparr>calls := calls w @ [MemcpyAsync dst src n gpuMemcpyHostToDevice (stream d w)]\<rparr>)
            \<and> memcpyDeviceToHost cfg rt gd dst src n w =
              (Inr (), w\<lparr>calls := calls w @ [MemcpyAsync dst src n gpuMemcpyDeviceToHost (stream d w)]\<rparr>)
            \<and> LAUNCH_GPU_KERNEL cfg rt kern gridsize blocksize sharedmem gd args w =
              (Inr (), w\<lparr>calls := calls w
                         @ [LaunchKernel kern gridsize blocksize sharedmem (stream d w) args]\<rparr>)
            \<and> memcpy cfg rt gd dst src n w =
                (if EIGEN_GPU_COMPILE_PHASE cfg then (Inl AssertionFailed, w)
                 else (Inr (), w\<lparr>calls := calls w
                         @ [MemcpyAsync dst src n gpuMemcpyDeviceToDevice (stream d w)]\<rparr>))
            \<and> memset cfg rt gd dst v n w =
                (if EIGEN_GPU_COMPILE_PHASE cfg then (Inl AssertionFailed, w)
                 else (Inr (), w\<lparr>calls := calls w @ [MemsetAsync dst v n (stream d w)]\<rparr>))"
      by (simp only: memcpyHostToDevice_def memcpyDeviceToHost_def simp_thms)
  qed
  have q1: "cerr (snd (allocate cfg rt d n w)) = cerr w"
    by (simp add: al)
  have q2: "cerr (snd (deallocate cfg rt d buffer w)) = cerr w"
    by (simp add: de)
  have quiet_copy: "cerr (snd (copy_async cfg rt gd dst src n k w)) = cerr w" for k
    by (simp add: copy_async_def GpuDevice_stream_def gpuMemcpyAsync_def a issue_def
        split: option.splits)
  have q3: "cerr (snd (memcpyHostToDevice cfg rt gd dst src n w)) = cerr w"
    using quiet_copy by (simp add: memcpyHostToDevice_def)
  have q4: "cerr (snd (memcpyDeviceToHost cfg rt gd dst src n w)) = cerr w"
    using quiet_copy by (simp add: memcpyDeviceToHost_def)
  have q5: "cerr (snd (memcpy cfg rt gd dst src n w)) = cerr w"
    using quiet_copy by (simp add: memcpy_def)
  have q6: "cerr (snd (memset cfg rt gd dst v n w)) = cerr w"
    by (simp add: memset_def GpuDevice_stream_def gpuMemsetAsync_def a issue_def
        split: option.splits)
  have q7: "cerr (snd (LAUNCH_GPU_KERNEL cfg rt kern gridsize blocksize sharedmem gd args w)) = cerr w"
    by (simp add: LAUNCH_GPU_KERNEL_def GpuDevice_stream_def nc issue_def split: option.splits)
  show ?thesis
    by (rule conjI [OF nc conjI [OF a conjI [OF al conjI [OF de conjI [OF gd_part
          conjI [OF q1 conjI [OF q2 conjI [OF q3 conjI [OF q4 conjI [OF q5 conjI [OF q6 q7]]]]]]]]]]])
qed

theorem hip_device_compile_skips_asserts_witness:
  "allocate hip_device_pass rt_bad sd_one 64 w_bound =
     (Inr NULL, w_bound\<lparr>calls := [SetDevice 1, Malloc 64]\<rparr>)
   \<and> deallocate hip_device_pass rt_bad sd_one NULL w_bound =
     (Inr (), w_bound\<lparr>calls := [SetDevice 1, Free NULL]\<rparr>)
   \<and> memcpyHostToDevice hip_device_pass rt_bad gd_one 4096 512 64 w_bound =
     (Inr (), w_bound\<lparr>calls := [MemcpyAsync 4096 512 64 gpuMemcpyHostToDevice 0]\<rparr>)
   \<and> LAUNCH_GPU_KERNEL hip_device_pass rt_bad 3 8 256 0 gd_one [4096, 64] w_bound =
     (Inr (), w_bound\<lparr>calls := [LaunchKernel 3 8 256 0 0 [4096, 64]]\<rparr>)
   \<and> memset hip_device_pass rt_bad gd_one 4096 0 64 w_bound =
     (Inr (), w_bound\<lparr>calls := [MemsetAsync 4096 0 64 0]\<rparr>)
   \<and> memcpy hip_device_pass rt_bad gd_one 4096 512 64 w_bound =
     (Inr (), w_bound\<lparr>calls := [MemcpyAsync 4096 512 64 gpuMemcpyDeviceToDevice 0]\<rparr>)
   \<and> memset hip_kernel_phase rt_bad gd_one 4096 0 64 w_bound = (Inl AssertionFailed, w_bound)
   \<and> LAUNCH_GPU_KERNEL hip_kernel_phase rt_bad 3 8 256 0 gd_one [4096, 64] w_bound =
     (Inr (), w_bound\<lparr>calls := [LaunchKernel 3 8 256 0 0 [4096, 64]]\<rparr>)
   \<and> allocate gpu_host_pass rt_bad sd_one 64 w_bound =
     (Inl AssertionFailed, w_bound\<lparr>calls := [SetDevice 1]\<rparr>)
   \<and> LAUNCH_GPU_KERNEL gpu_host_pass rt_bad 3 8 256 0 gd_one [4096, 64] w_bound =
     (Inl AssertionFailed, w_bound\<lparr>calls := [LaunchKernel 3 8 256 0 0 [4096, 64], GetLastError]\<rparr>)"
proof -
  have h: "EIGEN_HIP_DEVICE_COMPILE hip_device_pass" "EIGEN_HIP_DEVICE_COMPILE hip_kernel_phase"
    by (simp_all add: hip_device_pass_def hip_kernel_phase_def)
  have p: "\<not> EIGEN_GPU_COMPILE_PHASE hip_device_pass" "EIGEN_GPU_COMPILE_PHASE hip_kernel_phase"
    by (simp_all add: hip_device_pass_def hip_kernel_phase_def)
  have b: "objects w_bound (gd_stream gd_one) = Some sd_one"
    by (simp add: w_bound_def gd_one_def)
  have s: "stream sd_one w_bound = 0"
    by (simp add: stream_def deref_stream_def sd_one_def gpuStreamDefault_def)
  have c0: "calls w_bound = []" by (simp add: w_bound_def w_start_def)
  have m: "snd (rtMalloc rt_bad h 64) = NULL" for h
    by (simp add: rt_bad_def)
  have dv: "sd_device sd_one = 1" by (simp add: sd_one_def)
  note t = hip_device_compile_skips_asserts
         [OF h(1), where rt = rt_bad and d = sd_one and n = 64 and w = w_bound and buffer = NULL
            and gd = gd_one and dst = 4096 and src = 512 and kern = 3 and gridsize = 8
            and blocksize = 256 and sharedmem = 0 and args = "[4096, 64]" and v = 0]
  note k = hip_device_compile_skips_asserts
         [OF h(2), where rt = rt_bad and d = sd_one and n = 64 and w = w_bound and buffer = NULL
            and gd = gd_one and dst = 4096 and src = 512 and kern = 3 and gridsize = 8
            and blocksize = 256 and sharedmem = 0 and args = "[4096, 64]" and v = 0]
  have a1: "allocate hip_device_pass rt_bad sd_one 64 w_bound =
     (Inr NULL, w_bound\<lparr>calls := [SetDevice 1, Malloc 64]\<rparr>)"
    using t [THEN conjunct2, THEN conjunct2, THEN conjunct1] by (simp add: m dv c0)
  have a2: "deallocate hip_device_pass rt_bad sd_one NULL w_bound =
     (Inr (), w_bound\<lparr>calls := [SetDevice 1, Free NULL]\<rparr>)"
    using t [THEN conjunct2, THEN conjunct2, THEN conjunct2, THEN conjunct1] by (simp add: dv c0)
  note tg = t [THEN conjunct2, THEN conjunct2, THEN conjunct2, THEN conjunct2, THEN conjunct1,
               THEN mp, OF b]
  note kg = k [THEN conjunct2, THEN conjunct2, THEN conjunct2, THEN conjunct2, THEN conjunct1,
               THEN mp, OF b]
  have a3: "memcpyHostToDevice hip_device_pass rt_bad gd_one 4096 512 64 w_bound =
     (Inr (), w_bound\<lparr>calls := [MemcpyAsync 4096 512 64 gpuMemcpyHostToDevice 0]\<rparr>)"
    using tg [THEN conjunct1] by (simp add: s c0)
  have a4: "LAUNCH_GPU_KERNEL hip_device_pass rt_bad 3 8 256 0 gd_one [4096, 64] w_bound =
     (Inr (), w_bound\<lparr>calls := [LaunchKernel 3 8 256 0 0 [4096, 64]]\<rparr>)"
    using tg [THEN conjunct2, THEN conjunct2, THEN conjunct1] by (simp add: s c0)
  have a5: "memset hip_device_pass rt_bad gd_one 4096 0 64 w_bound =
     (Inr (), w_bound\<lparr>calls := [MemsetAsync 4096 0 64 0]\<rparr>)"
    using tg [THEN conjunct2, THEN conjunct2, THEN conjunct2, THEN conjunct2] p(1)
    by (simp add: s c0)
  have a6: "memcpy hip_device_pass rt_bad gd_one 4096 512 64 w_bound =
     (Inr (), w_bound\<lparr>calls := [MemcpyAsync 4096 512 64 gpuMemcpyDeviceToDevice 0]\<rparr>)"
    using tg [THEN conjunct2, THEN conjunct2, THEN conjunct2, THEN conjunct1] p(1)
    by (simp add: s c0)
  have a7: "memset hip_kernel_phase rt_bad gd_one 4096 0 64 w_bound = (Inl AssertionFailed, w_bound)"
    using kg [THEN conjunct2, THEN conjunct2, THEN conjunct2, THEN conjunct2] p(2)
    by simp
  have a8: "LAUNCH_GPU_KERNEL hip_kernel_phase rt_bad 3 8 256 0 gd_one [4096, 64] w_bound =
     (Inr (), w_bound\<lparr>calls := [LaunchKernel 3 8 256 0 0 [4096, 64]]\<rparr>)"
    using kg [THEN conjunct2, THEN conjunct2, THEN conjunct1] by (simp add: s c0)
  have a9: "allocate gpu_host_pass rt_bad sd_one 64 w_bound =
     (Inl AssertionFailed, w_bound\<lparr>calls := [SetDevice 1]\<rparr>)"
    by (simp add: allocate_def gpuSetDevice_def issue_def assert_aborts_def assert_compiled_def
        gpu_host_pass_def rt_bad_def dv c0)
  have a10: "LAUNCH_GPU_KERNEL gpu_host_pass rt_bad 3 8 256 0 gd_one [4096, 64] w_bound =
     (Inl AssertionFailed, w_bound\<lparr>calls := [LaunchKernel 3 8 256 0 0 [4096, 64], GetLastError]\<rparr>)"
    by (simp add: LAUNCH_GPU_KERNEL_def GpuDevice_stream_def gpuGetLastError_def issue_def
        assert_compiled_def gpu_host_pass_def rt_bad_def b s c0)
  show ?thesis
    by (rule conjI [OF a1 conjI [OF a2 conjI [OF a3 conjI [OF a4 conjI [OF a5 conjI [OF a6
          conjI [OF a7 conjI [OF a8 conjI [OF a9 a10]]]]]]]]])
qed

end
